theory Spec2Isabelle
  imports Complex_Main
begin

section \<open>Data model (src/types.ts)\<close>

text \<open>
  The repository is a webcam-steered snake game.  Its sources hold several variants of the
  same two modules:
  \<^item> \<^verbatim>\<open>detectMotion\<close>: src/utils/visionUtils.ts lines 6-78 (stride 4, noise 40, factor 0.6,
    horizontal axis \<^emph>\<open>not\<close> inverted) and lines 84-157 (stride 8, noise 25, factor 0.5,
    horizontal axis inverted, "CRITICAL FIX");
  \<^item> the \<^verbatim>\<open>SnakeGame\<close> component: src/components/SnakeGame.tsx (fixed time step, the score
    is React state only) and src/utils/visionUtils.ts lines 607-1104 (variable time step,
    \<^verbatim>\<open>scoreRef\<close>, food on the inner ring).  A third copy, lines 157-606, differs from
    SnakeGame.tsx only in the dead-zone threshold (0.2) and the default player name.
  Each variant that differs is embedded under its own name.  JavaScript numbers that hold
  integers (grid coordinates, scores, pixel sums) are \<open>int\<close> or \<open>nat\<close>; numbers that
  hold fractions (motion vectors, timestamps, random draws) are \<open>real\<close>, the exact
  arithmetic that double precision approximates.
\<close>

datatype GameState = IDLE | PLAYING | GAME_OVER

datatype Direction = UP | DOWN | LEFT | RIGHT

record Position =
  px :: int
  py :: int

record MotionVector =
  vx :: real
  vy :: real
  intensity :: nat

record ScoreEntry =
  name :: string
  score :: int
  timestamp :: int

section \<open>Motion Extractor (src/utils/visionUtils.ts, detectMotion)\<close>

text \<open>
  A frame is the \<^verbatim>\<open>Uint8ClampedArray\<close> of \<^verbatim>\<open>getImageData\<close>: four bytes per pixel.  Reading
  past the end of a typed array gives \<^verbatim>\<open>undefined\<close>, the subtraction gives NaN, and
  \<^verbatim>\<open>NaN > c\<close> is false: \<open>channelDiff\<close> is \<open>None\<close> there and the pixel does not count.
\<close>

definition channelDiff :: "nat list \<Rightarrow> nat list \<Rightarrow> nat \<Rightarrow> real option" where
  "channelDiff data prev i =
     (if i < length data \<and> i < length prev
      then Some \<bar>real (data ! i) - real (prev ! i)\<bar>
      else None)"

definition pixelChanged :: "real \<Rightarrow> nat list \<Rightarrow> nat list \<Rightarrow> nat \<Rightarrow> bool" where
  "pixelChanged noise data prev i =
     (case channelDiff data prev i of
        None \<Rightarrow> False
      | Some rDiff \<Rightarrow>
         (case channelDiff data prev (i + 1) of
            None \<Rightarrow> False
          | Some gDiff \<Rightarrow>
             (case channelDiff data prev (i + 2) of
                None \<Rightarrow> False
              | Some bDiff \<Rightarrow> (rDiff + gDiff + bDiff) / 3 > noise)))"

text \<open>The loop counters \<^verbatim>\<open>for (let x = 0; x < n; x += stride)\<close>, in order.\<close>

definition strided :: "nat \<Rightarrow> nat \<Rightarrow> nat list" where
  "strided stride n = map (\<lambda>k. k * stride) [0 ..< (n + stride - 1) div stride]"

record Sums =
  totalX :: nat
  totalY :: nat
  changeCount :: nat

definition samplePixel :: "real \<Rightarrow> nat \<Rightarrow> nat list \<Rightarrow> nat list \<Rightarrow> nat \<Rightarrow> nat \<Rightarrow> Sums \<Rightarrow> Sums" where
  "samplePixel noise width data prev y x a =
     (if pixelChanged noise data prev ((y * width + x) * 4)
      then \<lparr>totalX = totalX a + x, totalY = totalY a + y, changeCount = changeCount a + 1\<rparr>
      else a)"

definition scanRow :: "nat \<Rightarrow> real \<Rightarrow> nat \<Rightarrow> nat list \<Rightarrow> nat list \<Rightarrow> nat \<Rightarrow> Sums \<Rightarrow> Sums" where
  "scanRow stride noise width data prev y a =
     fold (samplePixel noise width data prev y) (strided stride width) a"

definition scanFrame :: "nat \<Rightarrow> real \<Rightarrow> nat \<Rightarrow> nat \<Rightarrow> nat list \<Rightarrow> nat list option \<Rightarrow> Sums" where
  "scanFrame stride noise width height data prevFrame =
     (case prevFrame of
        None \<Rightarrow> \<lparr>totalX = 0, totalY = 0, changeCount = 0\<rparr>
      | Some prev \<Rightarrow>
          if length prev = length data
          then fold (scanRow stride noise width data prev) (strided stride height)
                 \<lparr>totalX = 0, totalY = 0, changeCount = 0\<rparr>
          else \<lparr>totalX = 0, totalY = 0, changeCount = 0\<rparr>)"

definition motionThreshold :: "nat \<Rightarrow> real \<Rightarrow> nat \<Rightarrow> nat \<Rightarrow> real" where
  "motionThreshold stride fraction width height =
     real (width * height) / real (stride * stride) * fraction"

definition clamp1 :: "real \<Rightarrow> real" where
  "clamp1 v = max (-1) (min 1 v)"

text \<open>
  Lines 6-78.  The result is the vector and the new \<^verbatim>\<open>prevFrame\<close>.  When no pixel changed
  and the threshold is not positive (an empty frame) the source divides 0 by 0 and returns
  NaN coordinates: the vector is \<open>None\<close> there.
\<close>

definition detectMotion :: "nat \<Rightarrow> nat \<Rightarrow> nat list \<Rightarrow> nat list option \<Rightarrow> MotionVector option \<times> nat list option" where
  "detectMotion width height data prevFrame =
     (let a = scanFrame 4 40 width height data prevFrame;
          centerX = real width / 2;
          centerY = real height / 2
      in (if real (changeCount a) < motionThreshold 4 0.005 width height
          then Some \<lparr>vx = 0, vy = 0, intensity = 0\<rparr>
          else if changeCount a = 0 then None
          else Some \<lparr>vx = clamp1 ((real (totalX a) / real (changeCount a) - centerX) / (centerX * 0.6)),
                     vy = clamp1 ((real (totalY a) / real (changeCount a) - centerY) / (centerY * 0.6)),
                     intensity = changeCount a\<rparr>,
          Some data))"

text \<open>Lines 84-157: the horizontal axis is \<^verbatim>\<open>(centerX - avgX)\<close>.\<close>

definition detectMotion_mirrored :: "nat \<Rightarrow> nat \<Rightarrow> nat list \<Rightarrow> nat list option \<Rightarrow> MotionVector option \<times> nat list option" where
  "detectMotion_mirrored width height data prevFrame =
     (let a = scanFrame 8 25 width height data prevFrame;
          centerX = real width / 2;
          centerY = real height / 2
      in (if real (changeCount a) < motionThreshold 8 0.001 width height
          then Some \<lparr>vx = 0, vy = 0, intensity = 0\<rparr>
          else if changeCount a = 0 then None
          else Some \<lparr>vx = clamp1 ((centerX - real (totalX a) / real (changeCount a)) / (centerX * 0.5)),
                     vy = clamp1 ((real (totalY a) / real (changeCount a) - centerY) / (centerY * 0.5)),
                     intensity = changeCount a\<rparr>,
          Some data))"

text \<open>
  The centroid \<^verbatim>\<open>avgX\<close> of the changed pixels, and frame pairs whose changed sampled pixels
  all lie strictly left of the centre column.
\<close>

definition avgX :: "Sums \<Rightarrow> real" where
  "avgX a = real (totalX a) / real (changeCount a)"

definition leftOnly :: "nat \<Rightarrow> real \<Rightarrow> nat \<Rightarrow> nat \<Rightarrow> nat list \<Rightarrow> nat list \<Rightarrow> bool" where
  "leftOnly stride noise width height data prev =
     list_all (\<lambda>y. list_all (\<lambda>x. pixelChanged noise data prev ((y * width + x) * 4) \<longrightarrow> 2 * x < width)
                        (strided stride width))
              (strided stride height)"

section \<open>Direction Arbiter (the direction logic inside loop)\<close>

fun opposite :: "Direction \<Rightarrow> Direction" where
  "opposite UP = DOWN"
| "opposite DOWN = UP"
| "opposite LEFT = RIGHT"
| "opposite RIGHT = LEFT"

definition smooth :: "real \<times> real \<Rightarrow> MotionVector \<Rightarrow> real \<times> real" where
  "smooth s raw = (fst s * 0.8 + vx raw * 0.2, snd s * 0.8 + vy raw * 0.2)"

text \<open>
  src/components/SnakeGame.tsx lines 157-174 (and visionUtils.ts lines 317-334 with
  THRESHOLD 0.2): two assignments in sequence on each axis.
\<close>

definition determineDirection :: "real \<Rightarrow> real \<times> real \<Rightarrow> Direction \<Rightarrow> Direction" where
  "determineDirection THRESHOLD smoothed d =
     (if \<bar>fst smoothed\<bar> > \<bar>snd smoothed\<bar>
      then (if \<bar>fst smoothed\<bar> > THRESHOLD
            then (let d1 = (if fst smoothed > 0 \<and> d \<noteq> LEFT then RIGHT else d)
                  in (if fst smoothed < 0 \<and> d1 \<noteq> RIGHT then LEFT else d1))
            else d)
      else (if \<bar>snd smoothed\<bar> > THRESHOLD
            then (let d1 = (if snd smoothed > 0 \<and> d \<noteq> UP then DOWN else d)
                  in (if snd smoothed < 0 \<and> d1 \<noteq> DOWN then UP else d1))
            else d))"

text \<open>src/utils/visionUtils.ts lines 769-792: a candidate \<^verbatim>\<open>newDir\<close>, then the 180-degree guard.\<close>

definition directionLogic :: "real \<Rightarrow> real \<times> real \<Rightarrow> Direction \<Rightarrow> Direction" where
  "directionLogic THRESHOLD smoothed d =
     (if \<bar>fst smoothed\<bar> > \<bar>snd smoothed\<bar>
      then (if \<bar>fst smoothed\<bar> > THRESHOLD
            then (let newDir = (if fst smoothed > 0 then RIGHT else LEFT)
                  in (if (newDir = RIGHT \<and> d \<noteq> LEFT) \<or> (newDir = LEFT \<and> d \<noteq> RIGHT)
                      then newDir else d))
            else d)
      else (if \<bar>snd smoothed\<bar> > THRESHOLD
            then (let newDir = (if snd smoothed > 0 then DOWN else UP)
                  in (if (newDir = DOWN \<and> d \<noteq> UP) \<or> (newDir = UP \<and> d \<noteq> DOWN)
                      then newDir else d))
            else d))"

section \<open>Component state (the hooks of SnakeGame)\<close>

text \<open>
  A render of the component binds the values of its state hooks (\<^verbatim>\<open>gameState\<close>,
  \<^verbatim>\<open>score\<close>, \<^verbatim>\<open>playerName\<close>, \<^verbatim>\<open>leaderboard\<close>) and the constants \<^verbatim>\<open>COLS\<close> and
  \<^verbatim>\<open>ROWS\<close> computed from \<^verbatim>\<open>window.innerWidth\<close>; the functions declared in that render
  (\<^verbatim>\<open>loop\<close>, \<^verbatim>\<open>updateSnake\<close>, \<^verbatim>\<open>gameOver\<close>, \<^verbatim>\<open>saveScore\<close>) close over these bindings.
\<close>

record Render =
  r_gameState :: GameState
  r_score :: int
  r_playerName :: string
  r_leaderboard :: "ScoreEntry list"
  r_COLS :: int
  r_ROWS :: int

text \<open>
  The state hooks, the refs, the module variable \<^verbatim>\<open>prevFrame\<close> of visionUtils.ts, the
  item \<^verbatim>\<open>neon_snake_leaderboard\<close> of localStorage, and \<open>loopRender\<close>: the render whose
  \<^verbatim>\<open>loop\<close> callback is the one \<^verbatim>\<open>useCallback\<close> currently returns.
\<close>

record Component =
  gameState :: GameState
  scoreState :: int
  playerName :: string
  leaderboard :: "ScoreEntry list"
  snakeRef :: "Position list"
  foodRef :: Position
  directionRef :: Direction
  scoreRef :: int
  lastUpdateRef :: real
  smoothedVectorRef :: "real \<times> real"
  prevFrame :: "nat list option"
  storage :: "ScoreEntry list option"
  loopRender :: Render

definition INITIAL_SNAKE :: "Position list" where
  "INITIAL_SNAKE = [\<lparr>px = 10, py = 10\<rparr>]"

definition COLS :: "int \<Rightarrow> int" where
  "COLS innerWidth = (if innerWidth < 640 then 15 else 30)"

definition ROWS :: "int \<Rightarrow> int" where
  "ROWS innerWidth = (if innerWidth < 640 then 15 else 20)"

definition renderOf :: "int \<Rightarrow> Component \<Rightarrow> Render" where
  "renderOf innerWidth g =
     \<lparr>r_gameState = gameState g, r_score = scoreState g, r_playerName = playerName g,
      r_leaderboard = leaderboard g, r_COLS = COLS innerWidth, r_ROWS = ROWS innerWidth\<rparr>"

text \<open>
  \<^verbatim>\<open>useCallback(..., [gameState])\<close>: after an update the component renders again, and the
  \<^verbatim>\<open>loop\<close> callback is created anew, over the bindings of the new render, only when
  \<^verbatim>\<open>gameState\<close> has changed; otherwise the callback of the earlier render is kept.
\<close>

definition rerender :: "int \<Rightarrow> Component \<Rightarrow> Component \<Rightarrow> Component" where
  "rerender innerWidth before after =
     (if gameState after \<noteq> gameState before
      then after\<lparr>loopRender := renderOf innerWidth after\<rparr>
      else after)"

section \<open>Leaderboard Store (saveScore)\<close>

text \<open>
  \<^verbatim>\<open>[...leaderboard, entry].sort((a, b) => b.score - a.score).slice(0, 10)\<close>.
  \<^verbatim>\<open>Array.prototype.sort\<close> is stable, as \<open>sort_key\<close> is.
\<close>

definition newLeaderboard :: "ScoreEntry list \<Rightarrow> ScoreEntry \<Rightarrow> ScoreEntry list" where
  "newLeaderboard lb entry = take 10 (sort_key (\<lambda>e. - score e) (lb @ [entry]))"

definition makeEntry :: "string \<Rightarrow> string \<Rightarrow> int \<Rightarrow> int \<Rightarrow> ScoreEntry" where
  "makeEntry fallback pname finalScore now =
     \<lparr>name = (if pname = [] then fallback else pname), score = finalScore, timestamp = now\<rparr>"

definition saveScore :: "Render \<Rightarrow> int \<Rightarrow> int \<Rightarrow> Component \<Rightarrow> Component" where
  "saveScore r finalScore now g =
     (let entry = makeEntry ''Unknown Pilot'' (r_playerName r) finalScore now;
          lb = newLeaderboard (r_leaderboard r) entry
      in g\<lparr>leaderboard := lb, storage := Some lb\<rparr>)"

section \<open>Snake Simulation\<close>

text \<open>src/components/SnakeGame.tsx lines 121-125: \<open>rx\<close> and \<open>ry\<close> are the two \<^verbatim>\<open>Math.random()\<close> draws.\<close>

definition spawnFood :: "int \<Rightarrow> real \<Rightarrow> real \<Rightarrow> Component \<Rightarrow> Component" where
  "spawnFood innerWidth rx ry g =
     g\<lparr>foodRef := \<lparr>px = \<lfloor>rx * (if innerWidth < 600 then 15 else 30)\<rfloor>,
                    py = \<lfloor>ry * (if innerWidth < 600 then 15 else 20)\<rfloor>\<rparr>\<rparr>"

text \<open>src/utils/visionUtils.ts lines 732-740.\<close>

definition spawnFood_ref :: "int \<Rightarrow> real \<Rightarrow> real \<Rightarrow> Component \<Rightarrow> Component" where
  "spawnFood_ref innerWidth rx ry g =
     (let cols = (if innerWidth < 640 then 15 else 30);
          rows = (if innerWidth < 640 then 15 else 20)
      in g\<lparr>foodRef := \<lparr>px = \<lfloor>rx * real_of_int (cols - 2)\<rfloor> + 1,
                       py = \<lfloor>ry * real_of_int (rows - 2)\<rfloor> + 1\<rparr>\<rparr>)"

fun move :: "Direction \<Rightarrow> Position \<Rightarrow> Position" where
  "move UP h = h\<lparr>py := py h - 1\<rparr>"
| "move DOWN h = h\<lparr>py := py h + 1\<rparr>"
| "move LEFT h = h\<lparr>px := px h - 1\<rparr>"
| "move RIGHT h = h\<lparr>px := px h + 1\<rparr>"

text \<open>
  src/components/SnakeGame.tsx lines 241-245: \<^verbatim>\<open>saveScore(score)\<close> reads the \<^verbatim>\<open>score\<close>
  bound in the render that created the running callback.
\<close>

definition gameOver :: "Render \<Rightarrow> int \<Rightarrow> Component \<Rightarrow> Component" where
  "gameOver r now g = saveScore r (r_score r) now (g\<lparr>gameState := GAME_OVER\<rparr>)"

text \<open>src/utils/visionUtils.ts lines 851-856: \<^verbatim>\<open>saveScore(scoreRef.current)\<close>.\<close>

definition gameOver_ref :: "Render \<Rightarrow> int \<Rightarrow> Component \<Rightarrow> Component" where
  "gameOver_ref r now g = saveScore r (scoreRef g) now (g\<lparr>gameState := GAME_OVER\<rparr>)"

definition wallCollision :: "Render \<Rightarrow> Position \<Rightarrow> bool" where
  "wallCollision r head = (px head < 0 \<or> px head \<ge> r_COLS r \<or> py head < 0 \<or> py head \<ge> r_ROWS r)"

definition selfCollision :: "Position list \<Rightarrow> Position \<Rightarrow> bool" where
  "selfCollision snake head = list_ex (\<lambda>segment. px segment = px head \<and> py segment = py head) snake"

definition onFood :: "Component \<Rightarrow> Position \<Rightarrow> bool" where
  "onFood g head = (px head = px (foodRef g) \<and> py head = py (foodRef g))"

text \<open>
  src/components/SnakeGame.tsx lines 206-239.  With an empty snake the source reads
  \<^verbatim>\<open>undefined\<close> coordinates, no test succeeds and the snake stays empty.
\<close>

definition updateSnake :: "Render \<Rightarrow> int \<Rightarrow> real \<Rightarrow> real \<Rightarrow> int \<Rightarrow> Component \<Rightarrow> Component" where
  "updateSnake r innerWidth rx ry now g =
     (case snakeRef g of
        [] \<Rightarrow> g
      | h # rest \<Rightarrow>
         (let head = move (directionRef g) h
          in if wallCollision r head then gameOver r now g
             else if selfCollision (snakeRef g) head then gameOver r now g
             else if onFood g head
                  then spawnFood innerWidth rx ry
                         (g\<lparr>scoreState := scoreState g + 1, snakeRef := head # snakeRef g\<rparr>)
                  else g\<lparr>snakeRef := butlast (head # snakeRef g)\<rparr>))"

text \<open>src/utils/visionUtils.ts lines 815-849.\<close>

definition updateSnake_ref :: "Render \<Rightarrow> int \<Rightarrow> real \<Rightarrow> real \<Rightarrow> int \<Rightarrow> Component \<Rightarrow> Component" where
  "updateSnake_ref r innerWidth rx ry now g =
     (case snakeRef g of
        [] \<Rightarrow> g
      | h # rest \<Rightarrow>
         (let head = move (directionRef g) h
          in if wallCollision r head then gameOver_ref r now g
             else if selfCollision (snakeRef g) head then gameOver_ref r now g
             else if onFood g head
                  then spawnFood_ref innerWidth rx ry
                         (g\<lparr>scoreRef := scoreRef g + 1, scoreState := scoreRef g + 1,
                            snakeRef := head # snakeRef g\<rparr>)
                  else g\<lparr>snakeRef := butlast (head # snakeRef g)\<rparr>))"

section \<open>Run Controller (mount, startGame, loop)\<close>

text \<open>
  The initial values of the hooks and, from the mount effect, the stored leaderboard:
  \<open>saved\<close> is the parsed item of localStorage (\<open>None\<close> when it is absent or does not parse).
\<close>

definition mount :: "ScoreEntry list option \<Rightarrow> int \<Rightarrow> Component" where
  "mount saved innerWidth =
     \<lparr>gameState = IDLE, scoreState = 0, playerName = [],
      leaderboard = (case saved of None \<Rightarrow> [] | Some lb \<Rightarrow> lb),
      snakeRef = INITIAL_SNAKE, foodRef = \<lparr>px = 15, py = 5\<rparr>, directionRef = RIGHT,
      scoreRef = 0, lastUpdateRef = 0, smoothedVectorRef = (0, 0), prevFrame = None,
      storage = saved,
      loopRender = \<lparr>r_gameState = IDLE, r_score = 0, r_playerName = [],
                    r_leaderboard = [], r_COLS = COLS innerWidth, r_ROWS = ROWS innerWidth\<rparr>\<rparr>"

definition setPlayerName :: "string \<Rightarrow> Component \<Rightarrow> Component" where
  "setPlayerName v g = g\<lparr>playerName := v\<rparr>"

text \<open>\<^verbatim>\<open>!playerName.trim()\<close>, on the ASCII white space characters.\<close>

definition isBlank :: "string \<Rightarrow> bool" where
  "isBlank s = list_all (\<lambda>c. c \<in> {CHR 0x09, CHR 0x0A, CHR 0x0B, CHR 0x0C, CHR 0x0D, CHR '' ''}) s"

text \<open>
  src/components/SnakeGame.tsx lines 84-100; \<open>apiKey\<close> is \<^verbatim>\<open>process.env.API_KEY\<close>.  The
  connection to the commentary service that follows is outside the model.
\<close>

definition startGame :: "string option \<Rightarrow> int \<Rightarrow> real \<Rightarrow> real \<Rightarrow> Component \<Rightarrow> Component" where
  "startGame apiKey innerWidth rx ry g =
     (if apiKey = None \<or> apiKey = Some [] then g
      else if isBlank (playerName g) then g
      else rerender innerWidth g
             (spawnFood innerWidth rx ry
                (g\<lparr>gameState := PLAYING, scoreState := 0, snakeRef := INITIAL_SNAKE,
                   directionRef := RIGHT, smoothedVectorRef := (0, 0)\<rparr>)))"

text \<open>src/utils/visionUtils.ts lines 700-709.\<close>

definition startGame_ref :: "int \<Rightarrow> real \<Rightarrow> real \<Rightarrow> Component \<Rightarrow> Component" where
  "startGame_ref innerWidth rx ry g =
     rerender innerWidth g
       (spawnFood_ref innerWidth rx ry
          (g\<lparr>gameState := PLAYING, scoreState := 0, scoreRef := 0, snakeRef := INITIAL_SNAKE,
             directionRef := RIGHT, smoothedVectorRef := (0, 0)\<rparr>))"

definition BASE_SPEED :: int where
  "BASE_SPEED = 250"

definition SPEED_DECREMENT :: int where
  "SPEED_DECREMENT = 5"

definition MIN_SPEED :: int where
  "MIN_SPEED = 60"

definition INITIAL_SNAKE_SPEED :: int where
  "INITIAL_SNAKE_SPEED = 150"

text \<open>src/utils/visionUtils.ts line 798.\<close>

definition currentSpeed :: "int \<Rightarrow> int" where
  "currentSpeed s = max MIN_SPEED (BASE_SPEED - s * SPEED_DECREMENT)"

text \<open>
  What one animation frame reads from outside: the timestamp handed to the callback, the
  pixels of the 320 x 240 analysis canvas (\<open>None\<close> while the video is not ready), the two
  random draws and the clock a food respawn and a game over would read, and the viewport
  width.
\<close>

record TickInput =
  tick_time :: real
  tick_frame :: "nat list option"
  tick_randX :: real
  tick_randY :: real
  tick_now :: int
  tick_innerWidth :: int

type_synonym detector = "nat \<Rightarrow> nat \<Rightarrow> nat list \<Rightarrow> nat list option \<Rightarrow> MotionVector option \<times> nat list option"

text \<open>
  Step 1 of \<^verbatim>\<open>loop\<close>: \<open>detect\<close> is the \<^verbatim>\<open>detectMotion\<close> the component imports and
  \<open>arbiter\<close> its direction logic.  A NaN vector (\<open>None\<close>) cannot come from the 320 x 240
  canvas; the model leaves the smoothed vector and the direction alone there.
\<close>

definition motionStep :: "detector \<Rightarrow> (real \<times> real \<Rightarrow> Direction \<Rightarrow> Direction) \<Rightarrow> nat list \<Rightarrow> Component \<Rightarrow> Component" where
  "motionStep detect arbiter data g =
     (case detect 320 240 data (prevFrame g) of
        (None, pf) \<Rightarrow> g\<lparr>prevFrame := pf\<rparr>
      | (Some rawVector, pf) \<Rightarrow>
          (let smoothed = smooth (smoothedVectorRef g) rawVector
           in g\<lparr>prevFrame := pf, smoothedVectorRef := smoothed,
                directionRef := arbiter smoothed (directionRef g)\<rparr>))"

text \<open>src/components/SnakeGame.tsx lines 128-199: the fixed time step.\<close>

definition loop :: "detector \<Rightarrow> Render \<Rightarrow> TickInput \<Rightarrow> Component \<Rightarrow> Component" where
  "loop detect r ti g =
     (if r_gameState r \<noteq> PLAYING then g
      else (let g1 = (case tick_frame ti of
                        None \<Rightarrow> g
                      | Some data \<Rightarrow> motionStep detect (determineDirection 0.3) data g)
            in if tick_time ti - lastUpdateRef g1 > real_of_int INITIAL_SNAKE_SPEED
               then (updateSnake r (tick_innerWidth ti) (tick_randX ti) (tick_randY ti) (tick_now ti) g1)
                      \<lparr>lastUpdateRef := tick_time ti\<rparr>
               else g1))"

text \<open>src/utils/visionUtils.ts lines 743-809: the time step that follows the score.\<close>

definition loop_ref :: "detector \<Rightarrow> Render \<Rightarrow> TickInput \<Rightarrow> Component \<Rightarrow> Component" where
  "loop_ref detect r ti g =
     (if r_gameState r \<noteq> PLAYING then g
      else (let g1 = (case tick_frame ti of
                        None \<Rightarrow> g
                      | Some data \<Rightarrow> motionStep detect (directionLogic 0.3) data g)
            in if tick_time ti - lastUpdateRef g1 > real_of_int (currentSpeed (scoreRef g1))
               then (updateSnake_ref r (tick_innerWidth ti) (tick_randX ti) (tick_randY ti) (tick_now ti) g1)
                      \<lparr>lastUpdateRef := tick_time ti\<rparr>
               else g1))"

text \<open>One animation frame: the callback kept by \<^verbatim>\<open>useCallback\<close> runs, then the component renders.\<close>

definition animationFrame :: "detector \<Rightarrow> TickInput \<Rightarrow> Component \<Rightarrow> Component" where
  "animationFrame detect ti g = rerender (tick_innerWidth ti) g (loop detect (loopRender g) ti g)"

definition animationFrame_ref :: "detector \<Rightarrow> TickInput \<Rightarrow> Component \<Rightarrow> Component" where
  "animationFrame_ref detect ti g = rerender (tick_innerWidth ti) g (loop_ref detect (loopRender g) ti g)"

fun frames :: "detector \<Rightarrow> TickInput list \<Rightarrow> Component \<Rightarrow> Component" where
  "frames detect [] g = g"
| "frames detect (ti # tis) g = frames detect tis (animationFrame detect ti g)"

fun frames_ref :: "detector \<Rightarrow> TickInput list \<Rightarrow> Component \<Rightarrow> Component" where
  "frames_ref detect [] g = g"
| "frames_ref detect (ti # tis) g = frames_ref detect tis (animationFrame_ref detect ti g)"

section \<open>Runs: sequences of advances and of saves\<close>

text \<open>
  A sequence of \<^verbatim>\<open>advance()\<close> calls of one run.  Between two advances the arbiter may have
  set any direction; each advance has its own random draws and clock.  As in \<^verbatim>\<open>loop\<close>,
  nothing advances once the state has left PLAYING.
\<close>

record Advance =
  adv_dir :: Direction
  adv_randX :: real
  adv_randY :: real
  adv_now :: int

definition eats :: "Render \<Rightarrow> Component \<Rightarrow> bool" where
  "eats r g =
     (case snakeRef g of
        [] \<Rightarrow> False
      | h # rest \<Rightarrow>
         (let head = move (directionRef g) h
          in \<not> wallCollision r head \<and> \<not> selfCollision (snakeRef g) head \<and> onFood g head))"

fun advances :: "Render \<Rightarrow> int \<Rightarrow> Advance list \<Rightarrow> Component \<Rightarrow> Component" where
  "advances r w [] g = g"
| "advances r w (a # as) g =
     (if gameState g \<noteq> PLAYING then g
      else advances r w as
             (updateSnake r w (adv_randX a) (adv_randY a) (adv_now a) (g\<lparr>directionRef := adv_dir a\<rparr>)))"

fun advances_ref :: "Render \<Rightarrow> int \<Rightarrow> Advance list \<Rightarrow> Component \<Rightarrow> Component" where
  "advances_ref r w [] g = g"
| "advances_ref r w (a # as) g =
     (if gameState g \<noteq> PLAYING then g
      else advances_ref r w as
             (updateSnake_ref r w (adv_randX a) (adv_randY a) (adv_now a) (g\<lparr>directionRef := adv_dir a\<rparr>)))"

text \<open>The number of advances of the run whose new head was on the food.\<close>

fun eaten :: "Render \<Rightarrow> int \<Rightarrow> Advance list \<Rightarrow> Component \<Rightarrow> nat" where
  "eaten r w [] g = 0"
| "eaten r w (a # as) g =
     (if gameState g \<noteq> PLAYING then 0
      else (if eats r (g\<lparr>directionRef := adv_dir a\<rparr>) then 1 else 0) +
           eaten r w as
             (updateSnake r w (adv_randX a) (adv_randY a) (adv_now a) (g\<lparr>directionRef := adv_dir a\<rparr>)))"

fun eaten_ref :: "Render \<Rightarrow> int \<Rightarrow> Advance list \<Rightarrow> Component \<Rightarrow> nat" where
  "eaten_ref r w [] g = 0"
| "eaten_ref r w (a # as) g =
     (if gameState g \<noteq> PLAYING then 0
      else (if eats r (g\<lparr>directionRef := adv_dir a\<rparr>) then 1 else 0) +
           eaten_ref r w as
             (updateSnake_ref r w (adv_randX a) (adv_randY a) (adv_now a) (g\<lparr>directionRef := adv_dir a\<rparr>)))"

text \<open>
  A sequence of saves, each a pair of final score and clock; the component renders between
  two saves, so each \<^verbatim>\<open>saveScore\<close> closes over the leaderboard the one before stored.
\<close>

fun saveAll :: "int \<Rightarrow> (int \<times> int) list \<Rightarrow> Component \<Rightarrow> Component" where
  "saveAll w [] g = g"
| "saveAll w ((finalScore, now) # rest) g =
     saveAll w rest (saveScore (renderOf w g) finalScore now g)"

definition savedEntries :: "string \<Rightarrow> (int \<times> int) list \<Rightarrow> ScoreEntry list" where
  "savedEntries pname saves = map (\<lambda>(finalScore, now). makeEntry ''Unknown Pilot'' pname finalScore now) saves"

text \<open>Sorted descending by score; the number of entries that outrank an entry.\<close>

definition sortedDescending :: "ScoreEntry list \<Rightarrow> bool" where
  "sortedDescending lb = sorted_wrt (\<lambda>a b. score b \<le> score a) lb"

definition outranking :: "ScoreEntry list \<Rightarrow> ScoreEntry \<Rightarrow> nat" where
  "outranking all e = length (filter (\<lambda>e'. score e < score e') all)"

section \<open>Sample runs\<close>

text \<open>
  Concrete states the theorems below are evaluated on: a player named Ann on a wide
  viewport, the first food drawn one cell to the right of the snake's head.
\<close>

definition freshRun :: Component where
  "freshRun = startGame (Some ''key'') 1024 (3/8) (1/2) (setPlayerName ''Ann'' (mount None 1024))"

definition freshRun_ref :: Component where
  "freshRun_ref = startGame_ref 1024 (3/8) (1/2) (setPlayerName ''Ann'' (mount None 1024))"

definition rightward :: "int \<Rightarrow> Advance" where
  "rightward now = \<lparr>adv_dir = RIGHT, adv_randX = 0, adv_randY = 0, adv_now = now\<rparr>"

text \<open>A snake of four segments coiled in a square, its head about to enter the cell of its tail tip.\<close>

definition coiledSnake :: Component where
  "coiledSnake = freshRun_ref
     \<lparr>snakeRef := [\<lparr>px = 5, py = 5\<rparr>, \<lparr>px = 5, py = 6\<rparr>, \<lparr>px = 6, py = 6\<rparr>, \<lparr>px = 6, py = 5\<rparr>]\<rparr>"

definition elevenSaves :: "(int \<times> int) list" where
  "elevenSaves = [(3, 100), (7, 101), (1, 102), (9, 103), (4, 104), (11, 105), (2, 106),
                  (8, 107), (5, 108), (10, 109), (6, 110)]"

text \<open>
  Frames of a 32 x 8 canvas: all black, all grey, and black but for a white stripe over
  the pixels 8 to 15 of the top row, which lies left of the centre column 16.
\<close>

definition blackFrame :: "nat list" where
  "blackFrame = replicate 1024 0"

definition greyFrame :: "nat list" where
  "greyFrame = replicate 1024 128"

definition stripeFrame :: "nat list" where
  "stripeFrame = replicate 32 0 @ replicate 32 255 @ replicate 960 0"

text \<open>
  A run on a narrow viewport (15 columns), the first food one cell right of the head, and
  five animation frames 300 ms apart with the video not ready: the snake eats once and
  then runs into the right wall.
\<close>

definition narrowRun :: Component where
  "narrowRun = startGame (Some ''key'') 500 (3/4) (7/10) (setPlayerName ''Ann'' (mount None 500))"

definition narrowRun_ref :: Component where
  "narrowRun_ref = startGame_ref 500 (4/5) (7/10) (setPlayerName ''Ann'' (mount None 500))"

definition frameAt :: "real \<Rightarrow> int \<Rightarrow> TickInput" where
  "frameAt t now = \<lparr>tick_time = t, tick_frame = None, tick_randX = 0, tick_randY = 0,
                    tick_now = now, tick_innerWidth = 500\<rparr>"

definition fiveFrames :: "TickInput list" where
  "fiveFrames = [frameAt 300 1001, frameAt 600 1002, frameAt 900 1003, frameAt 1200 1004, frameAt 1500 1005]"

section \<open>Direction Arbiter: no reversal, ties go to the vertical axis\<close>

lemma motionStep_lastUpdateRef: "lastUpdateRef (motionStep detect arb data g) = lastUpdateRef g"
  by (simp add: motionStep_def Let_def split: prod.splits option.splits)

lemma motionStep_scoreRef: "scoreRef (motionStep detect arb data g) = scoreRef g"
  by (simp add: motionStep_def Let_def split: prod.splits option.splits)

lemma opposite_neq: "d \<noteq> opposite d" by (cases d) auto

lemma motionStep_no_reverse:
  assumes "\<And>v d. arb v d \<noteq> opposite d"
  shows "directionRef (motionStep detect arb data g) \<noteq> opposite (directionRef g)"
  using assms opposite_neq[of "directionRef g"]
  by (simp add: motionStep_def Let_def split: prod.splits option.splits)

lemma saveScore_directionRef: "directionRef (saveScore r s now g) = directionRef g"
  by (simp add: saveScore_def Let_def)

lemma updateSnake_directionRef: "directionRef (updateSnake r w rx ry now g) = directionRef g"
  by (simp add: updateSnake_def gameOver_def saveScore_def spawnFood_def Let_def split: list.splits)

lemma updateSnake_ref_directionRef: "directionRef (updateSnake_ref r w rx ry now g) = directionRef g"
  by (simp add: updateSnake_ref_def gameOver_ref_def saveScore_def spawnFood_ref_def Let_def split: list.splits)

lemma arbiters_no_reverse:
  "determineDirection T v d \<noteq> opposite d" "directionLogic T v d \<noteq> opposite d"
  by (cases d; auto simp: determineDirection_def directionLogic_def Let_def)+

lemma loop_directionRef:
  "directionRef (loop detect r ti g) \<noteq> opposite (directionRef g)"
proof -
  have m: "directionRef (motionStep detect (determineDirection 0.3) data g) \<noteq> opposite (directionRef g)" for data
    by (rule motionStep_no_reverse) (rule arbiters_no_reverse)
  show ?thesis
    by (auto simp: loop_def Let_def updateSnake_directionRef m opposite_neq split: option.splits)
qed

lemma loop_ref_directionRef:
  "directionRef (loop_ref detect r ti g) \<noteq> opposite (directionRef g)"
proof -
  have m: "directionRef (motionStep detect (directionLogic 0.3) data g) \<noteq> opposite (directionRef g)" for data
    by (rule motionStep_no_reverse) (rule arbiters_no_reverse)
  show ?thesis
    by (auto simp: loop_ref_def Let_def updateSnake_ref_directionRef m opposite_neq split: option.splits)
qed

text \<open>
  Claim C5.  Whatever the smoothed vector and whatever the current direction, one step of
  the direction logic never yields the exact reverse of the current direction (RIGHT
  against LEFT, UP against DOWN): the direction stays or turns to a direction that is not
  its reverse.  This holds for both variants of the logic at any dead-zone threshold, and
  for a whole call of \<^verbatim>\<open>loop\<close> on any frame.
\<close>

theorem C5_no_reverse:
  "determineDirection T v d \<noteq> opposite d \<and> directionLogic T v d \<noteq> opposite d \<and>
   directionRef (loop detect r ti g) \<noteq> opposite (directionRef g) \<and>
   directionRef (loop_ref detect r ti g) \<noteq> opposite (directionRef g)"
  by (simp add: arbiters_no_reverse loop_directionRef loop_ref_directionRef)

theorem C5_no_reverse_witness:
  "determineDirection 0.3 (-1, 0) RIGHT = RIGHT \<and> directionLogic 0.3 (-1, 0) RIGHT = RIGHT \<and>
   determineDirection 0.3 (0, 1) RIGHT = DOWN \<and> directionLogic 0.3 (0, 1) RIGHT = DOWN"
  using C5_no_reverse[of "0.3" "(-1, 0)" RIGHT]
  by (simp add: determineDirection_def directionLogic_def)

text \<open>
  Claim C10.  When the two axes of the smoothed vector tie in absolute value the
  horizontal branch, which asks for a strictly greater \<open>\<bar>x\<bar>\<close>, is not taken: the
  direction stays or becomes UP or DOWN, never newly LEFT or RIGHT, and beyond the dead
  zone it becomes DOWN for a positive and UP for a negative \<open>y\<close> unless that would reverse.
\<close>

theorem C10_tie_vertical:
  "\<bar>fst v\<bar> = \<bar>snd v\<bar> \<Longrightarrow>
   determineDirection T v d \<in> {d, UP, DOWN} \<and> directionLogic T v d \<in> {d, UP, DOWN} \<and>
   (T < \<bar>snd v\<bar> \<and> 0 < snd v \<and> d \<noteq> UP \<longrightarrow>
      determineDirection T v d = DOWN \<and> directionLogic T v d = DOWN) \<and>
   (T < \<bar>snd v\<bar> \<and> snd v < 0 \<and> d \<noteq> DOWN \<longrightarrow>
      determineDirection T v d = UP \<and> directionLogic T v d = UP)"
  by (auto simp: determineDirection_def directionLogic_def Let_def)

theorem C10_tie_vertical_witness:
  "\<bar>fst (0.5::real, -0.5::real)\<bar> = \<bar>snd (0.5::real, -0.5::real)\<bar> \<and>
   determineDirection 0.3 (0.5, -0.5) RIGHT = UP \<and> directionLogic 0.3 (0.5, -0.5) RIGHT = UP"
  using C10_tie_vertical[of "(0.5, -0.5)" "0.3" RIGHT]
  by simp


section \<open>Speed policy\<close>

text \<open>
  The loop with the variable time step (src/utils/visionUtils.ts lines 796-803): the
  interval it waits between two advances is \<open>max MIN_SPEED (BASE_SPEED - s * SPEED_DECREMENT)\<close>
  at score \<open>s\<close>.  It is never below \<open>MIN_SPEED\<close>, it does not grow when the score grows (it
  shrinks with every point up to 38 and stays at \<open>MIN_SPEED\<close> from there), and a frame of a
  running game advances the snake exactly when the time since the last advance exceeds
  that interval at the current score.
\<close>

lemma loop_ref_speed_policy:
  "currentSpeed s = max MIN_SPEED (BASE_SPEED - s * SPEED_DECREMENT) \<and>
   MIN_SPEED \<le> currentSpeed s \<and>
   (s \<le> t \<longrightarrow> currentSpeed t \<le> currentSpeed s) \<and>
   (0 \<le> s \<and> s < t \<and> t \<le> 38 \<longrightarrow> currentSpeed t < currentSpeed s) \<and>
   (38 \<le> s \<longrightarrow> currentSpeed s = MIN_SPEED) \<and>
   (r_gameState r = PLAYING \<longrightarrow>
      loop_ref detect r ti g =
        (let g1 = (case tick_frame ti of None \<Rightarrow> g
                   | Some data \<Rightarrow> motionStep detect (directionLogic 0.3) data g)
         in if tick_time ti - lastUpdateRef g > real_of_int (max MIN_SPEED (BASE_SPEED - scoreRef g * SPEED_DECREMENT))
            then (updateSnake_ref r (tick_innerWidth ti) (tick_randX ti) (tick_randY ti) (tick_now ti) g1)
                   \<lparr>lastUpdateRef := tick_time ti\<rparr>
            else g1))"
  by (auto simp: currentSpeed_def SPEED_DECREMENT_def MIN_SPEED_def BASE_SPEED_def loop_ref_def Let_def
        motionStep_lastUpdateRef motionStep_scoreRef split: option.splits)


lemma loop_ref_speed_policy_example:
  "currentSpeed 3 = 235 \<and> currentSpeed 40 = 60 \<and> currentSpeed 40 \<le> currentSpeed 3 \<and>
   lastUpdateRef (loop_ref detectMotion_mirrored
       (loopRender freshRun_ref)
       \<lparr>tick_time = 251, tick_frame = None, tick_randX = 0, tick_randY = 0, tick_now = 7, tick_innerWidth = 1024\<rparr>
       freshRun_ref) = 251 \<and>
   lastUpdateRef (loop_ref detectMotion_mirrored
       (loopRender freshRun_ref)
       \<lparr>tick_time = 250, tick_frame = None, tick_randX = 0, tick_randY = 0, tick_now = 7, tick_innerWidth = 1024\<rparr>
       freshRun_ref) = 0"
  using loop_ref_speed_policy[where s = 3 and t = 40
      and r = "loopRender freshRun_ref"
      and detect = detectMotion_mirrored
      and ti = "\<lparr>tick_time = 251, tick_frame = None, tick_randX = 0, tick_randY = 0, tick_now = 7, tick_innerWidth = 1024\<rparr>"
      and g = freshRun_ref]
  by (simp add: currentSpeed_def MIN_SPEED_def BASE_SPEED_def SPEED_DECREMENT_def
      loop_ref_def freshRun_ref_def startGame_ref_def rerender_def renderOf_def spawnFood_ref_def mount_def
      setPlayerName_def Let_def)

lemma loop_fixed_step:
  "r_gameState r = PLAYING \<Longrightarrow>
   loop detect r ti g =
     (let g1 = (case tick_frame ti of None \<Rightarrow> g
                | Some data \<Rightarrow> motionStep detect (determineDirection 0.3) data g)
      in if tick_time ti - lastUpdateRef g > 150
         then (updateSnake r (tick_innerWidth ti) (tick_randX ti) (tick_randY ti) (tick_now ti) g1)
                \<lparr>lastUpdateRef := tick_time ti\<rparr>
         else g1)"
  by (auto simp: loop_def INITIAL_SNAKE_SPEED_def Let_def motionStep_lastUpdateRef split: option.splits)

text \<open>
  Claim C1.  The claim asks that the wait between two advances be
  \<open>max MIN_SPEED (BASE_SPEED - s * SPEED_DECREMENT)\<close> at every score \<open>s\<close>.  The loop of
  visionUtils.ts lines 743-809 does that (\<open>loop_ref_speed_policy\<close>).  The loop of
  src/components/SnakeGame.tsx lines 188-193 never reads the score: it advances whenever
  more than \<^verbatim>\<open>INITIAL_SNAKE_SPEED\<close> = 150 ms have passed (\<open>loop_fixed_step\<close>).  On a fresh run,
  score 0, where the policy asks for more than 250 ms, it advances after 151 ms; the
  other loop does not advance at 151 ms and does at 251 ms.
\<close>

theorem C1_fixed_step:
  "scoreState narrowRun = 0 \<and> lastUpdateRef narrowRun = 0 \<and> currentSpeed 0 = 250 \<and>
   lastUpdateRef (loop detectMotion_mirrored (loopRender narrowRun) (frameAt 151 1001) narrowRun) = 151 \<and>
   snakeRef (loop detectMotion_mirrored (loopRender narrowRun) (frameAt 151 1001) narrowRun) =
     [\<lparr>px = 11, py = 10\<rparr>, \<lparr>px = 10, py = 10\<rparr>] \<and>
   scoreRef narrowRun_ref = 0 \<and> lastUpdateRef narrowRun_ref = 0 \<and>
   loop_ref detectMotion_mirrored (loopRender narrowRun_ref) (frameAt 151 1001) narrowRun_ref = narrowRun_ref \<and>
   lastUpdateRef (loop_ref detectMotion_mirrored (loopRender narrowRun_ref) (frameAt 251 1001) narrowRun_ref) = 251"
  by (simp add: narrowRun_def narrowRun_ref_def frameAt_def startGame_def startGame_ref_def
      isBlank_def rerender_def renderOf_def spawnFood_def spawnFood_ref_def mount_def setPlayerName_def
      loop_def loop_ref_def updateSnake_def updateSnake_ref_def wallCollision_def selfCollision_def
      onFood_def INITIAL_SNAKE_def COLS_def ROWS_def INITIAL_SNAKE_SPEED_def currentSpeed_def
      MIN_SPEED_def BASE_SPEED_def SPEED_DECREMENT_def Let_def)

theorem C1_fixed_step_witness:
  "tick_time (frameAt 151 1001) - lastUpdateRef narrowRun < real_of_int (currentSpeed (scoreState narrowRun)) \<and>
   lastUpdateRef (loop detectMotion_mirrored (loopRender narrowRun) (frameAt 151 1001) narrowRun) = 151"
  using C1_fixed_step by (simp add: frameAt_def)

section \<open>Snake Simulation: collisions, eating and growth\<close>

lemma Position_eq_iff: "(a::Position) = b \<longleftrightarrow> px a = px b \<and> py a = py b"
  by (auto intro: Position.equality)

lemma selfCollision_iff: "selfCollision snake head \<longleftrightarrow> head \<in> set snake"
  by (simp add: selfCollision_def list_ex_iff Position_eq_iff[symmetric])

lemma move_neq: "move d h \<noteq> h"
  by (cases d) (simp_all add: Position_eq_iff)

text \<open>
  Claim C9.  Moving the head into the cell of the snake's tail tip ends the run even when
  no food is eaten there: the self-collision test reads the body as it is before the move,
  tail segment included, so the state becomes GAME_OVER and the body and the score are
  left as they were.
\<close>

theorem C9_tail_tip:
  assumes "snakeRef g = h # rest" and "move (directionRef g) h = last (snakeRef g)"
  shows "gameState (updateSnake r w rx ry now g) = GAME_OVER \<and>
         snakeRef (updateSnake r w rx ry now g) = snakeRef g \<and>
         scoreState (updateSnake r w rx ry now g) = scoreState g \<and>
         gameState (updateSnake_ref r w rx ry now g) = GAME_OVER \<and>
         snakeRef (updateSnake_ref r w rx ry now g) = snakeRef g \<and>
         scoreRef (updateSnake_ref r w rx ry now g) = scoreRef g \<and>
         selfCollision (snakeRef g) (move (directionRef g) h)"
proof -
  have "last (snakeRef g) \<in> set (snakeRef g)" using assms(1) by simp
  then have sc: "selfCollision (snakeRef g) (move (directionRef g) h)"
    using assms(2) by (simp add: selfCollision_iff)
  show ?thesis using assms(1) sc
    by (simp add: updateSnake_def updateSnake_ref_def gameOver_def gameOver_ref_def saveScore_def Let_def)
qed

theorem C9_tail_tip_witness:
  "gameState (updateSnake_ref (loopRender coiledSnake) 1024 0 0 7 coiledSnake) = GAME_OVER \<and>
   gameState (updateSnake (loopRender coiledSnake) 1024 0 0 7 coiledSnake) = GAME_OVER \<and>
   \<not> wallCollision (loopRender coiledSnake) (move (directionRef coiledSnake) (hd (snakeRef coiledSnake))) \<and>
   \<not> onFood coiledSnake (move (directionRef coiledSnake) (hd (snakeRef coiledSnake)))"
  using C9_tail_tip[where g = coiledSnake and h = "\<lparr>px = 5, py = 5\<rparr>"
      and rest = "[\<lparr>px = 5, py = 6\<rparr>, \<lparr>px = 6, py = 6\<rparr>, \<lparr>px = 6, py = 5\<rparr>]"
      and r = "loopRender coiledSnake" and w = 1024 and rx = 0 and ry = 0 and now = 7]
  by (simp add: coiledSnake_def freshRun_ref_def startGame_ref_def rerender_def renderOf_def spawnFood_ref_def mount_def
      setPlayerName_def Let_def wallCollision_def onFood_def COLS_def ROWS_def)

lemma updateSnake_step:
  assumes "gameState (updateSnake r w rx ry now g) = PLAYING"
  shows "length (snakeRef (updateSnake r w rx ry now g)) = length (snakeRef g) + (if eats r g then 1 else 0) \<and>
         scoreState (updateSnake r w rx ry now g) = scoreState g + (if eats r g then 1 else 0)"
  using assms
  by (auto simp: updateSnake_def eats_def gameOver_def saveScore_def spawnFood_def Let_def
        split: list.splits if_splits)

lemma updateSnake_ref_step:
  assumes "gameState (updateSnake_ref r w rx ry now g) = PLAYING"
  shows "length (snakeRef (updateSnake_ref r w rx ry now g)) = length (snakeRef g) + (if eats r g then 1 else 0) \<and>
         scoreRef (updateSnake_ref r w rx ry now g) = scoreRef g + (if eats r g then 1 else 0)"
  using assms
  by (auto simp: updateSnake_ref_def eats_def gameOver_ref_def saveScore_def spawnFood_ref_def Let_def
        split: list.splits if_splits)

lemma advances_stopped: "gameState g \<noteq> PLAYING \<Longrightarrow> advances r w as g = g"
  by (cases as) simp_all

lemma advances_ref_stopped: "gameState g \<noteq> PLAYING \<Longrightarrow> advances_ref r w as g = g"
  by (cases as) simp_all

lemma advances_length:
  "gameState (advances r w as g) = PLAYING \<Longrightarrow>
   length (snakeRef (advances r w as g)) = length (snakeRef g) + eaten r w as g \<and>
   scoreState (advances r w as g) = scoreState g + int (eaten r w as g)"
proof (induction as arbitrary: g)
  case Nil
  then show ?case by simp
next
  case (Cons a as)
  let ?g1 = "updateSnake r w (adv_randX a) (adv_randY a) (adv_now a) (g\<lparr>directionRef := adv_dir a\<rparr>)"
  from Cons.prems have playing: "gameState g = PLAYING"
    by (cases "gameState g = PLAYING") simp_all
  with Cons.prems have fin: "gameState (advances r w as ?g1) = PLAYING" by simp
  have g1: "gameState ?g1 = PLAYING"
  proof (rule ccontr)
    assume "gameState ?g1 \<noteq> PLAYING"
    then show False using fin by (simp add: advances_stopped)
  qed
  from updateSnake_step[OF g1] Cons.IH[OF fin] playing
  show ?case by simp
qed

lemma advances_ref_length:
  "gameState (advances_ref r w as g) = PLAYING \<Longrightarrow>
   length (snakeRef (advances_ref r w as g)) = length (snakeRef g) + eaten_ref r w as g \<and>
   scoreRef (advances_ref r w as g) = scoreRef g + int (eaten_ref r w as g)"
proof (induction as arbitrary: g)
  case Nil
  then show ?case by simp
next
  case (Cons a as)
  let ?g1 = "updateSnake_ref r w (adv_randX a) (adv_randY a) (adv_now a) (g\<lparr>directionRef := adv_dir a\<rparr>)"
  from Cons.prems have playing: "gameState g = PLAYING"
    by (cases "gameState g = PLAYING") simp_all
  with Cons.prems have fin: "gameState (advances_ref r w as ?g1) = PLAYING" by simp
  have g1: "gameState ?g1 = PLAYING"
  proof (rule ccontr)
    assume "gameState ?g1 \<noteq> PLAYING"
    then show False using fin by (simp add: advances_ref_stopped)
  qed
  from updateSnake_ref_step[OF g1] Cons.IH[OF fin] playing
  show ?case by simp
qed

lemma startGame_ref_fresh:
  "snakeRef (startGame_ref w rx ry g) = INITIAL_SNAKE \<and> scoreRef (startGame_ref w rx ry g) = 0 \<and>
   scoreState (startGame_ref w rx ry g) = 0 \<and> gameState (startGame_ref w rx ry g) = PLAYING"
  by (simp add: startGame_ref_def rerender_def spawnFood_ref_def Let_def)

lemma startGame_fresh:
  "apiKey = Some k \<Longrightarrow> k \<noteq> [] \<Longrightarrow> \<not> isBlank (playerName g) \<Longrightarrow>
   snakeRef (startGame apiKey w rx ry g) = INITIAL_SNAKE \<and>
   scoreState (startGame apiKey w rx ry g) = 0 \<and> gameState (startGame apiKey w rx ry g) = PLAYING"
  by (simp add: startGame_def rerender_def spawnFood_def Let_def)

lemma updateSnake_free:
  assumes "snakeRef g = h # rest" "\<not> wallCollision r (move (directionRef g) h)"
          "\<not> selfCollision (snakeRef g) (move (directionRef g) h)"
  shows "updateSnake r w rx ry now g =
          (if onFood g (move (directionRef g) h)
           then g\<lparr>scoreState := scoreState g + 1, snakeRef := move (directionRef g) h # snakeRef g,
                  foodRef := \<lparr>px = \<lfloor>rx * (if w < 600 then 15 else 30)\<rfloor>, py = \<lfloor>ry * (if w < 600 then 15 else 20)\<rfloor>\<rparr>\<rparr>
           else g\<lparr>snakeRef := move (directionRef g) h # butlast (snakeRef g)\<rparr>)"
  using assms by (simp add: updateSnake_def spawnFood_def Let_def)

lemma updateSnake_ref_free:
  assumes "snakeRef g = h # rest" "\<not> wallCollision r (move (directionRef g) h)"
          "\<not> selfCollision (snakeRef g) (move (directionRef g) h)"
  shows "updateSnake_ref r w rx ry now g =
          (if onFood g (move (directionRef g) h)
           then g\<lparr>scoreRef := scoreRef g + 1, scoreState := scoreRef g + 1,
                  snakeRef := move (directionRef g) h # snakeRef g,
                  foodRef := \<lparr>px = \<lfloor>rx * real_of_int ((if w < 640 then 15 else 30) - 2)\<rfloor> + 1,
                              py = \<lfloor>ry * real_of_int ((if w < 640 then 15 else 20) - 2)\<rfloor> + 1\<rparr>\<rparr>
           else g\<lparr>snakeRef := move (directionRef g) h # butlast (snakeRef g)\<rparr>)"
  using assms by (simp add: updateSnake_ref_def spawnFood_ref_def Let_def)


text \<open>
  Claim C6.  An advance without collision whose new head is on the food raises the score by
  exactly one, draws a new food position at once and keeps the tail, so the snake is one
  segment longer; any other advance without collision leaves score, food and length as they
  were.  Hence after any sequence of advances of a fresh run that has not collided the
  length of the snake is one plus the number of food items eaten, which is also the score.
\<close>

theorem C6_eat_and_grow:
  "(snakeRef g = h # rest \<and> \<not> wallCollision r (move (directionRef g) h) \<and>
    \<not> selfCollision (snakeRef g) (move (directionRef g) h) \<longrightarrow>
      gameState (updateSnake r w rx ry now g) = gameState g \<and>
      gameState (updateSnake_ref r w rx ry now g) = gameState g \<and>
      (if onFood g (move (directionRef g) h)
       then scoreState (updateSnake r w rx ry now g) = scoreState g + 1 \<and>
            scoreRef (updateSnake_ref r w rx ry now g) = scoreRef g + 1 \<and>
            scoreState (updateSnake_ref r w rx ry now g) = scoreRef g + 1 \<and>
            foodRef (updateSnake r w rx ry now g) = foodRef (spawnFood w rx ry g) \<and>
            foodRef (updateSnake_ref r w rx ry now g) = foodRef (spawnFood_ref w rx ry g) \<and>
            snakeRef (updateSnake r w rx ry now g) = move (directionRef g) h # snakeRef g \<and>
            snakeRef (updateSnake_ref r w rx ry now g) = move (directionRef g) h # snakeRef g \<and>
            length (snakeRef (updateSnake r w rx ry now g)) = length (snakeRef g) + 1 \<and>
            length (snakeRef (updateSnake_ref r w rx ry now g)) = length (snakeRef g) + 1
       else scoreState (updateSnake r w rx ry now g) = scoreState g \<and>
            scoreRef (updateSnake_ref r w rx ry now g) = scoreRef g \<and>
            scoreState (updateSnake_ref r w rx ry now g) = scoreState g \<and>
            foodRef (updateSnake r w rx ry now g) = foodRef g \<and>
            foodRef (updateSnake_ref r w rx ry now g) = foodRef g \<and>
            snakeRef (updateSnake r w rx ry now g) = move (directionRef g) h # butlast (snakeRef g) \<and>
            snakeRef (updateSnake_ref r w rx ry now g) = move (directionRef g) h # butlast (snakeRef g) \<and>
            length (snakeRef (updateSnake r w rx ry now g)) = length (snakeRef g) \<and>
            length (snakeRef (updateSnake_ref r w rx ry now g)) = length (snakeRef g))) \<and>
   (gameState (advances_ref r w as (startGame_ref w0 rx0 ry0 g0)) = PLAYING \<longrightarrow>
      length (snakeRef (advances_ref r w as (startGame_ref w0 rx0 ry0 g0))) =
        1 + eaten_ref r w as (startGame_ref w0 rx0 ry0 g0) \<and>
      scoreRef (advances_ref r w as (startGame_ref w0 rx0 ry0 g0)) =
        int (eaten_ref r w as (startGame_ref w0 rx0 ry0 g0))) \<and>
   (k \<noteq> [] \<and> \<not> isBlank (playerName g0) \<and>
    gameState (advances r w as (startGame (Some k) w0 rx0 ry0 g0)) = PLAYING \<longrightarrow>
      length (snakeRef (advances r w as (startGame (Some k) w0 rx0 ry0 g0))) =
        1 + eaten r w as (startGame (Some k) w0 rx0 ry0 g0) \<and>
      scoreState (advances r w as (startGame (Some k) w0 rx0 ry0 g0)) =
        int (eaten r w as (startGame (Some k) w0 rx0 ry0 g0)))"
  (is "(?hyp \<longrightarrow> ?step) \<and> ?ref \<and> ?state")
proof -
  have step: "?hyp \<longrightarrow> ?step"
  proof (intro impI)
    assume "?hyp"
    then have a1: "snakeRef g = h # rest" and a2: "\<not> wallCollision r (move (directionRef g) h)"
      and a3: "\<not> selfCollision (snakeRef g) (move (directionRef g) h)" by blast+
    show "?step"
      by (simp add: updateSnake_free[OF a1 a2 a3] updateSnake_ref_free[OF a1 a2 a3]
            spawnFood_def spawnFood_ref_def Let_def a1)
  qed
  have ref: "?ref"
  proof (intro impI)
    assume "gameState (advances_ref r w as (startGame_ref w0 rx0 ry0 g0)) = PLAYING"
    from advances_ref_length[OF this] startGame_ref_fresh[of w0 rx0 ry0 g0]
    show "length (snakeRef (advances_ref r w as (startGame_ref w0 rx0 ry0 g0))) =
            1 + eaten_ref r w as (startGame_ref w0 rx0 ry0 g0) \<and>
          scoreRef (advances_ref r w as (startGame_ref w0 rx0 ry0 g0)) =
            int (eaten_ref r w as (startGame_ref w0 rx0 ry0 g0))"
      by (simp add: INITIAL_SNAKE_def)
  qed
  have state: "?state"
  proof (intro impI)
    assume a: "k \<noteq> [] \<and> \<not> isBlank (playerName g0) \<and>
      gameState (advances r w as (startGame (Some k) w0 rx0 ry0 g0)) = PLAYING"
    then have "gameState (advances r w as (startGame (Some k) w0 rx0 ry0 g0)) = PLAYING" by simp
    from advances_length[OF this] startGame_fresh[of "Some k" k g0 w0 rx0 ry0] a
    show "length (snakeRef (advances r w as (startGame (Some k) w0 rx0 ry0 g0))) =
            1 + eaten r w as (startGame (Some k) w0 rx0 ry0 g0) \<and>
          scoreState (advances r w as (startGame (Some k) w0 rx0 ry0 g0)) =
            int (eaten r w as (startGame (Some k) w0 rx0 ry0 g0))"
      by (simp add: INITIAL_SNAKE_def)
  qed
  from step ref state show ?thesis by (intro conjI)
qed

theorem C6_eat_and_grow_witness:
  "snakeRef freshRun_ref = [\<lparr>px = 10, py = 10\<rparr>] \<and> foodRef freshRun_ref = \<lparr>px = 11, py = 10\<rparr> \<and>
   scoreRef (updateSnake_ref (loopRender freshRun_ref) 1024 0 0 7 freshRun_ref) = 1 \<and>
   scoreState (updateSnake (loopRender freshRun) 1024 0 0 7 freshRun) = 1 \<and>
   snakeRef (updateSnake_ref (loopRender freshRun_ref) 1024 0 0 7 freshRun_ref) =
     [\<lparr>px = 11, py = 10\<rparr>, \<lparr>px = 10, py = 10\<rparr>] \<and>
   foodRef (updateSnake_ref (loopRender freshRun_ref) 1024 0 0 7 freshRun_ref) = \<lparr>px = 1, py = 1\<rparr> \<and>
   gameState (advances_ref (loopRender freshRun_ref) 1024 [rightward 7, rightward 8, rightward 9] freshRun_ref) = PLAYING \<and>
   length (snakeRef (advances_ref (loopRender freshRun_ref) 1024 [rightward 7, rightward 8, rightward 9] freshRun_ref)) = 2 \<and>
   eaten_ref (loopRender freshRun_ref) 1024 [rightward 7, rightward 8, rightward 9] freshRun_ref = 1 \<and>
   length (snakeRef (advances (loopRender freshRun) 1024 [rightward 7, rightward 8, rightward 9] freshRun)) = 2 \<and>
   eaten (loopRender freshRun) 1024 [rightward 7, rightward 8, rightward 9] freshRun = 1"
  using C6_eat_and_grow[where g = freshRun_ref and h = "\<lparr>px = 10, py = 10\<rparr>" and rest = "[]"
      and r = "loopRender freshRun_ref" and w = 1024 and rx = 0 and ry = 0 and now = 7
      and as = "[rightward 7, rightward 8, rightward 9]" and ?w0.0 = 1024 and ?rx0.0 = "3/8" and ?ry0.0 = "1/2"
      and ?g0.0 = "setPlayerName ''Ann'' (mount None 1024)" and k = "''key''"]
  by (simp add: freshRun_ref_def freshRun_def rightward_def startGame_ref_def startGame_def isBlank_def
      rerender_def renderOf_def spawnFood_ref_def spawnFood_def mount_def setPlayerName_def
      updateSnake_ref_def updateSnake_def eats_def wallCollision_def selfCollision_def onFood_def
      INITIAL_SNAKE_def COLS_def ROWS_def Let_def)

section \<open>Leaderboard Store\<close>

lemma newLeaderboard_set: "set (newLeaderboard lb e) \<subseteq> insert e (set lb)"
  using set_take_subset[of 10 "sort_key (\<lambda>e. - score e) (lb @ [e])"]
  by (auto simp: newLeaderboard_def)

lemma newLeaderboard_length: "length (newLeaderboard lb e) = min 10 (length lb + 1)"
  by (simp add: newLeaderboard_def)

lemma newLeaderboard_sorted: "sortedDescending (newLeaderboard lb e)"
proof -
  have "sorted (map (\<lambda>e. - score e) (sort_key (\<lambda>e. - score e) (lb @ [e])))"
    by (rule sorted_sort_key)
  then have "sorted_wrt (\<lambda>a b. score b \<le> score a) (sort_key (\<lambda>e. - score e) (lb @ [e]))"
    by (simp add: sorted_map)
  then show ?thesis
    unfolding sortedDescending_def newLeaderboard_def by (rule sorted_wrt_take)
qed

lemma distinct_neg_scores: "distinct (map (\<lambda>e. - score e) xs) = distinct (map score xs)"
  by (simp add: distinct_map inj_on_def)

lemma sorted_scores_distinct:
  "distinct (map score (sort_key (\<lambda>e. - score e) xs)) = distinct (map score xs)"
  by (simp add: distinct_map)

lemma newLeaderboard_distinct:
  assumes "distinct (map score (lb @ [e]))"
  shows "distinct (map score (newLeaderboard lb e))"
proof -
  have "distinct (map score (sort_key (\<lambda>e. - score e) (lb @ [e])))"
    using assms by (simp only: sorted_scores_distinct)
  then show ?thesis
    unfolding newLeaderboard_def take_map[symmetric] by (rule distinct_take)
qed

lemma newLeaderboard_dropped:
  assumes d: "distinct (map score (lb @ [e]))"
    and y: "y \<in> insert e (set lb)" and n: "y \<notin> set (newLeaderboard lb e)"
  shows "length (newLeaderboard lb e) = 10 \<and> (\<forall>s \<in> set (newLeaderboard lb e). score y < score s)"
proof -
  let ?f = "\<lambda>e. - score e"
  let ?ys = "sort_key ?f (lb @ [e])"
  have yin: "y \<in> set ?ys" using y by auto
  have split: "?ys = take 10 ?ys @ drop 10 ?ys" by simp
  have "set ?ys = set (take 10 ?ys) \<union> set (drop 10 ?ys)"
    by (metis set_append split)
  with yin n have ydrop: "y \<in> set (drop 10 ?ys)" by (auto simp: newLeaderboard_def)
  then have "drop 10 ?ys \<noteq> []" by auto
  then have len: "10 < length ?ys" by simp
  have "sorted (map ?f ?ys)" by (rule sorted_sort_key)
  moreover have "distinct (map ?f ?ys)"
    using d by (simp only: distinct_neg_scores sorted_scores_distinct)
  ultimately have "sorted_wrt (<) (map ?f ?ys)" by (simp add: strict_sorted_iff)
  then have "sorted_wrt (\<lambda>a b. ?f a < ?f b) ?ys" by (simp add: sorted_wrt_map)
  then have "sorted_wrt (\<lambda>a b. ?f a < ?f b) (take 10 ?ys @ drop 10 ?ys)" by simp
  then have "\<forall>a \<in> set (take 10 ?ys). \<forall>b \<in> set (drop 10 ?ys). ?f a < ?f b"
    by (simp only: sorted_wrt_append) blast
  with ydrop have "\<forall>s \<in> set (take 10 ?ys). score y < score s" by auto
  moreover from len have "length (take 10 ?ys) = 10" by simp
  ultimately show ?thesis by (simp only: newLeaderboard_def) 
qed


lemma foldl_newLeaderboard_invariant:
  assumes "distinct (map score (lb0 @ es))"
  shows "set (foldl newLeaderboard lb0 es) \<subseteq> set (lb0 @ es) \<and>
         distinct (map score (foldl newLeaderboard lb0 es)) \<and>
         (\<forall>e \<in> set (lb0 @ es). e \<notin> set (foldl newLeaderboard lb0 es) \<longrightarrow>
            length (foldl newLeaderboard lb0 es) = 10 \<and>
            (\<forall>s \<in> set (foldl newLeaderboard lb0 es). score e < score s))"
  using assms
proof (induction es rule: rev_induct)
  case Nil
  then show ?case by simp
next
  case (snoc x xs)
  let ?st = "foldl newLeaderboard lb0 xs"
  let ?st' = "newLeaderboard ?st x"
  from snoc.prems have dall: "distinct (map score (lb0 @ xs))" by simp
  note IH = snoc.IH[OF dall]
  from IH have sub: "set ?st \<subseteq> set (lb0 @ xs)" and dst: "distinct (map score ?st)" by blast+
  from snoc.prems have xnew: "score x \<notin> score ` set (lb0 @ xs)" by auto
  with sub have "score x \<notin> score ` set ?st" by blast
  with dst have dsx: "distinct (map score (?st @ [x]))" by simp
  have sub': "set ?st' \<subseteq> insert x (set ?st)" by (rule newLeaderboard_set)
  have d': "distinct (map score ?st')" using dsx by (rule newLeaderboard_distinct)
  have dropped: "length ?st' = 10 \<and> (\<forall>s \<in> set ?st'. score e < score s)"
    if e: "e \<in> set (lb0 @ xs @ [x])" and n: "e \<notin> set ?st'" for e
  proof (cases "e \<in> insert x (set ?st)")
    case True
    then show ?thesis using newLeaderboard_dropped[OF dsx _ n] by blast
  next
    case False
    with e have "e \<in> set (lb0 @ xs)" "e \<notin> set ?st" by auto
    with IH have len: "length ?st = 10" and below: "\<forall>s \<in> set ?st. score e < score s" by blast+
    from len have len': "length ?st' = 10" by (simp add: newLeaderboard_length)
    have "score e < score s" if s: "s \<in> set ?st'" for s
    proof (cases "s \<in> set ?st")
      case True
      with below show ?thesis by blast
    next
      case False
      with s sub' have sx: "s = x" by blast
      have "distinct (?st @ [x])" using dsx by (metis distinct_map)
      then have "card (insert x (set ?st)) = 11"
        using len distinct_card[of "?st @ [x]"] by simp
      moreover have "card (set ?st') \<le> 10" using len' card_length[of ?st'] by simp
      ultimately have "\<not> insert x (set ?st) \<subseteq> set ?st'"
        using card_mono[of "set ?st'" "insert x (set ?st)"] by auto
      then obtain d where d: "d \<in> insert x (set ?st)" "d \<notin> set ?st'" by blast
      with s sx have "d \<in> set ?st" by auto
      with below have "score e < score d" by blast
      moreover from newLeaderboard_dropped[OF dsx d] s have "score d < score s" by blast
      ultimately show ?thesis by simp
    qed
    with len' show ?thesis by blast
  qed
  have "set ?st' \<subseteq> set (lb0 @ xs @ [x])" using sub sub' by auto
  with d' dropped show ?case by (simp only: foldl_append foldl.simps append_assoc) blast
qed

lemma outranking_top10:
  assumes d: "distinct (map score all)" and sub: "set st \<subseteq> set all" and len: "length st \<le> 10"
    and dropped: "\<forall>e \<in> set all. e \<notin> set st \<longrightarrow> (\<forall>s \<in> set st. score e < score s)"
    and e: "e \<in> set st"
  shows "outranking all e < 10"
proof -
  let ?P = "\<lambda>e'. score e < score e'"
  have dist: "distinct all" using d by (metis distinct_map)
  have "set (filter ?P all) \<subseteq> set st - {e}"
  proof
    fix y assume "y \<in> set (filter ?P all)"
    then have y: "y \<in> set all" "score e < score y" by auto
    have "y \<in> set st"
    proof (rule ccontr)
      assume "y \<notin> set st"
      with dropped y(1) e have "score y < score e" by blast
      with y(2) show False by simp
    qed
    moreover from y(2) have "y \<noteq> e" by auto
    ultimately show "y \<in> set st - {e}" by simp
  qed
  then have "card (set (filter ?P all)) \<le> card (set st - {e})"
    by (simp add: card_mono)
  also have "\<dots> < card (set st)" using e by (intro card_Diff1_less) simp_all
  also have "\<dots> \<le> 10" using len card_length[of st] by simp
  finally have "card (set (filter ?P all)) < 10" .
  moreover have "length (filter ?P all) = card (set (filter ?P all))"
    using distinct_card[of "filter ?P all"] dist by (simp only: distinct_filter)
  ultimately show ?thesis by (simp add: outranking_def)
qed

lemma outranking_dropped:
  assumes d: "distinct (map score all)" and sub: "set st \<subseteq> set all"
    and dst: "distinct (map score st)" and len: "length st = 10"
    and below: "\<forall>s \<in> set st. score e < score s"
  shows "10 \<le> outranking all e"
proof -
  let ?P = "\<lambda>e'. score e < score e'"
  have dist: "distinct all" using d by (metis distinct_map)
  have "distinct st" using dst by (metis distinct_map)
  then have "card (set st) = 10" using len distinct_card[of st] by simp
  moreover have "set st \<subseteq> set (filter ?P all)" using sub below by auto
  then have "card (set st) \<le> card (set (filter ?P all))" by (simp add: card_mono)
  moreover have "length (filter ?P all) = card (set (filter ?P all))"
    using distinct_card[of "filter ?P all"] dist by (simp only: distinct_filter)
  ultimately show ?thesis by (simp add: outranking_def)
qed

lemma saveScore_fields:
  "leaderboard (saveScore (renderOf w g) s now g) =
     newLeaderboard (leaderboard g) (makeEntry ''Unknown Pilot'' (playerName g) s now) \<and>
   storage (saveScore (renderOf w g) s now g) = Some (leaderboard (saveScore (renderOf w g) s now g)) \<and>
   playerName (saveScore (renderOf w g) s now g) = playerName g"
  by (simp add: saveScore_def renderOf_def Let_def)

lemma saveAll_leaderboard:
  "leaderboard (saveAll w saves g) = foldl newLeaderboard (leaderboard g) (savedEntries (playerName g) saves)"
proof (induction saves arbitrary: g)
  case Nil
  then show ?case by (simp add: savedEntries_def)
next
  case (Cons a saves)
  obtain s now where a: "a = (s, now)" by (cases a)
  show ?case
    unfolding a using Cons.IH[of "saveScore (renderOf w g) s now g"]
    by (simp add: savedEntries_def saveScore_fields)
qed

lemma saveAll_storage:
  "saves \<noteq> [] \<Longrightarrow> storage (saveAll w saves g) = Some (leaderboard (saveAll w saves g))"
proof (induction saves arbitrary: g)
  case Nil
  then show ?case by simp
next
  case (Cons a saves)
  obtain s now where a: "a = (s, now)" by (cases a)
  show ?case
  proof (cases "saves = []")
    case True
    then show ?thesis unfolding a by (simp add: saveScore_fields)
  next
    case False
    then show ?thesis unfolding a using Cons.IH[of "saveScore (renderOf w g) s now g"] by simp
  qed
qed

text \<open>
  Claim C8.  After every save the stored leaderboard (the state and the localStorage item
  alike) is sorted descending by score and holds at most ten entries; and when the scores
  saved so far are distinct, every stored entry is outranked by fewer than ten of them, so
  an entry whose score is below the tenth highest is not in the stored list: the stored
  entries are exactly the ten highest.
\<close>

theorem C8_leaderboard:
  assumes "saves \<noteq> []"
  shows "sortedDescending (leaderboard (saveAll w saves g)) \<and>
         length (leaderboard (saveAll w saves g)) \<le> 10 \<and>
         storage (saveAll w saves g) = Some (leaderboard (saveAll w saves g)) \<and>
         (distinct (map score (leaderboard g @ savedEntries (playerName g) saves)) \<longrightarrow>
            (\<forall>e \<in> set (leaderboard (saveAll w saves g)).
               outranking (leaderboard g @ savedEntries (playerName g) saves) e < 10) \<and>
            (\<forall>e \<in> set (leaderboard g @ savedEntries (playerName g) saves).
               (e \<in> set (leaderboard (saveAll w saves g))) =
               (outranking (leaderboard g @ savedEntries (playerName g) saves) e < 10)))"
proof -
  let ?es = "savedEntries (playerName g) saves"
  let ?all = "leaderboard g @ ?es"
  let ?st = "foldl newLeaderboard (leaderboard g) ?es"
  from assms have "?es \<noteq> []" by (simp add: savedEntries_def)
  then obtain xs x where es: "?es = xs @ [x]" by (metis rev_exhaust)
  have st: "?st = newLeaderboard (foldl newLeaderboard (leaderboard g) xs) x"
    unfolding es by simp
  have sorted: "sortedDescending ?st" unfolding st by (rule newLeaderboard_sorted)
  have len: "length ?st \<le> 10" unfolding st by (simp add: newLeaderboard_length)
  have top: "(\<forall>e \<in> set ?st. outranking ?all e < 10) \<and>
             (\<forall>e \<in> set ?all. (e \<in> set ?st) = (outranking ?all e < 10))"
    if d: "distinct (map score ?all)"
  proof -
    note inv = foldl_newLeaderboard_invariant[OF d]
    from inv have sub: "set ?st \<subseteq> set ?all" and dst: "distinct (map score ?st)" by blast+
    from inv have dr: "\<forall>e \<in> set ?all. e \<notin> set ?st \<longrightarrow> (\<forall>s \<in> set ?st. score e < score s)"
      by blast
    have kept: "outranking ?all e < 10" if "e \<in> set ?st" for e
      using outranking_top10[OF d sub len dr that] .
    have lost: "\<not> outranking ?all e < 10" if e: "e \<in> set ?all" "e \<notin> set ?st" for e
    proof -
      from inv e have "length ?st = 10" and "\<forall>s \<in> set ?st. score e < score s" by blast+
      from outranking_dropped[OF d sub dst this] show ?thesis by simp
    qed
    from kept lost show ?thesis by blast
  qed
  from sorted len top saveAll_storage[OF assms] show ?thesis
    by (simp only: saveAll_leaderboard) blast
qed

theorem C8_leaderboard_witness: 
  "elevenSaves \<noteq> [] \<and>
   map score (leaderboard (saveAll 1024 elevenSaves (setPlayerName ''Ann'' (mount None 1024)))) = [11, 10, 9, 8, 7, 6, 5, 4, 3, 2] \<and>
   makeEntry ''Unknown Pilot'' ''Ann'' 1 102 \<notin> set (leaderboard (saveAll 1024 elevenSaves (setPlayerName ''Ann'' (mount None 1024))))"
  using C8_leaderboard[where saves = elevenSaves and w = 1024 and g = "setPlayerName ''Ann'' (mount None 1024)"]
  by (simp add: elevenSaves_def saveScore_def renderOf_def newLeaderboard_def makeEntry_def mount_def setPlayerName_def Let_def)

section \<open>Motion Extractor\<close>

lemma pixelChanged_same: "0 \<le> noise \<Longrightarrow> \<not> pixelChanged noise data data i"
  by (simp add: pixelChanged_def channelDiff_def split: option.splits)

lemma fold_unchanged: "(\<And>x a. x \<in> set xs \<Longrightarrow> f x a = a) \<Longrightarrow> fold f xs a = a"
  by (induction xs arbitrary: a) simp_all

lemma scanRow_same: "0 \<le> noise \<Longrightarrow> scanRow stride noise width data data y a = a"
  unfolding scanRow_def by (rule fold_unchanged) (simp add: samplePixel_def pixelChanged_same)

lemma scanFrame_same:
  "0 \<le> noise \<Longrightarrow> scanFrame stride noise width height data (Some data) = \<lparr>totalX = 0, totalY = 0, changeCount = 0\<rparr>"
  unfolding scanFrame_def by (simp add: fold_unchanged scanRow_same)

lemma scanFrame_first:
  "scanFrame stride noise width height data None = \<lparr>totalX = 0, totalY = 0, changeCount = 0\<rparr>"
  by (simp add: scanFrame_def)

lemma motionThreshold_pos:
  "0 < width \<Longrightarrow> 0 < height \<Longrightarrow> 0 < stride \<Longrightarrow> 0 < fraction \<Longrightarrow> 0 < motionThreshold stride fraction width height"
  by (simp add: motionThreshold_def)

text \<open>
  Claim C7.  On the very first call, when no previous frame is kept, and for every pair of
  consecutive frames with no pixel difference, \<^verbatim>\<open>detectMotion\<close> returns the vector
  \<open>{x: 0, y: 0, intensity: 0}\<close> (and keeps the current frame); both variants do, for a
  frame of any positive width and height.
\<close>

theorem C7_still_frames:
  assumes "0 < width" and "0 < height"
  shows "detectMotion width height data None = (Some \<lparr>vx = 0, vy = 0, intensity = 0\<rparr>, Some data) \<and>
         detectMotion width height data (Some data) = (Some \<lparr>vx = 0, vy = 0, intensity = 0\<rparr>, Some data) \<and>
         detectMotion_mirrored width height data None = (Some \<lparr>vx = 0, vy = 0, intensity = 0\<rparr>, Some data) \<and>
         detectMotion_mirrored width height data (Some data) = (Some \<lparr>vx = 0, vy = 0, intensity = 0\<rparr>, Some data)"
  using motionThreshold_pos[OF assms, of 4 "0.005"] motionThreshold_pos[OF assms, of 8 "0.001"]
  by (simp add: detectMotion_def detectMotion_mirrored_def scanFrame_same scanFrame_first Let_def)

theorem C7_still_frames_witness:
  "detectMotion 32 8 greyFrame None = (Some \<lparr>vx = 0, vy = 0, intensity = 0\<rparr>, Some greyFrame) \<and>
   detectMotion_mirrored 32 8 greyFrame (Some greyFrame) = (Some \<lparr>vx = 0, vy = 0, intensity = 0\<rparr>, Some greyFrame)"
  using C7_still_frames[of 32 8 greyFrame] by simp

lemma samplePixel_left:
  assumes "pixelChanged noise data prev ((y * width + x) * 4) \<longrightarrow> 2 * x < width"
    and "2 * totalX a + changeCount a \<le> width * changeCount a"
  shows "2 * totalX (samplePixel noise width data prev y x a) + changeCount (samplePixel noise width data prev y x a)
           \<le> width * changeCount (samplePixel noise width data prev y x a)"
  using assms by (auto simp: samplePixel_def algebra_simps)

lemma fold_samplePixel_left:
  assumes "list_all (\<lambda>x. pixelChanged noise data prev ((y * width + x) * 4) \<longrightarrow> 2 * x < width) xs"
    and "2 * totalX a + changeCount a \<le> width * changeCount a"
  shows "2 * totalX (fold (samplePixel noise width data prev y) xs a) + changeCount (fold (samplePixel noise width data prev y) xs a)
           \<le> width * changeCount (fold (samplePixel noise width data prev y) xs a)"
  using assms
proof (induction xs arbitrary: a)
  case Nil
  then show ?case by simp
next
  case (Cons x xs)
  from Cons.prems(1) have hx: "pixelChanged noise data prev ((y * width + x) * 4) \<longrightarrow> 2 * x < width"
    and hxs: "list_all (\<lambda>x. pixelChanged noise data prev ((y * width + x) * 4) \<longrightarrow> 2 * x < width) xs"
    by simp_all
  from Cons.IH[OF hxs samplePixel_left[OF hx Cons.prems(2)]] show ?case by simp
qed

lemma fold_scanRow_left:
  assumes "list_all (\<lambda>y. list_all (\<lambda>x. pixelChanged noise data prev ((y * width + x) * 4) \<longrightarrow> 2 * x < width)
                        (strided stride width)) ys"
    and "2 * totalX a + changeCount a \<le> width * changeCount a"
  shows "2 * totalX (fold (scanRow stride noise width data prev) ys a) + changeCount (fold (scanRow stride noise width data prev) ys a)
           \<le> width * changeCount (fold (scanRow stride noise width data prev) ys a)"
  using assms
proof (induction ys arbitrary: a)
  case Nil
  then show ?case by simp
next
  case (Cons y ys)
  from Cons.prems(1) have hy: "list_all (\<lambda>x. pixelChanged noise data prev ((y * width + x) * 4) \<longrightarrow> 2 * x < width) (strided stride width)"
    and hys: "list_all (\<lambda>y. list_all (\<lambda>x. pixelChanged noise data prev ((y * width + x) * 4) \<longrightarrow> 2 * x < width)
                        (strided stride width)) ys"
    by simp_all
  have "2 * totalX (scanRow stride noise width data prev y a) + changeCount (scanRow stride noise width data prev y a)
           \<le> width * changeCount (scanRow stride noise width data prev y a)"
    unfolding scanRow_def by (rule fold_samplePixel_left[OF hy Cons.prems(2)])
  from Cons.IH[OF hys this] show ?case by simp
qed

lemma scanFrame_left:
  assumes "leftOnly stride noise width height data prev"
  shows "2 * totalX (scanFrame stride noise width height data (Some prev)) + changeCount (scanFrame stride noise width height data (Some prev))
           \<le> width * changeCount (scanFrame stride noise width height data (Some prev))"
proof (cases "length prev = length data")
  case True
  then show ?thesis
    using fold_scanRow_left[of noise data prev width stride "strided stride height" "\<lparr>totalX = 0, totalY = 0, changeCount = 0\<rparr>"]
      assms
    by (simp add: scanFrame_def leftOnly_def)
next
  case False
  then show ?thesis by (simp add: scanFrame_def)
qed

lemma avgX_left:
  assumes "2 * totalX a + changeCount a \<le> width * changeCount a" and "0 < changeCount a"
  shows "avgX a < real width / 2"
proof -
  from assms have "2 * totalX a < width * changeCount a" by linarith
  then have "real (2 * totalX a) < real (width * changeCount a)" by (simp only: of_nat_less_iff)
  then have "2 * real (totalX a) < real width * real (changeCount a)" by simp
  with assms(2) show ?thesis by (simp add: avgX_def field_simps)
qed

lemma reached_threshold_pos:
  assumes "0 < width" "0 < height" "0 < stride" "0 < fraction"
    and "\<not> real (changeCount a) < motionThreshold stride fraction width height"
  shows "0 < changeCount a"
proof -
  have "0 < motionThreshold stride fraction width height"
    using assms(1-4) by (simp add: motionThreshold_def)
  with assms(5) have "0 < real (changeCount a)" by linarith
  then show ?thesis by simp
qed

lemma detectMotion_mirrored_vx:
  assumes "0 < width" "0 < height"
    and "\<not> real (changeCount (scanFrame 8 25 width height data pf)) < motionThreshold 8 0.001 width height"
  shows "\<exists>v. fst (detectMotion_mirrored width height data pf) = Some v \<and>
             vx v = clamp1 ((real width / 2 - avgX (scanFrame 8 25 width height data pf)) / (real width / 2 * 0.5))"
  using reached_threshold_pos[OF assms(1,2) _ _ assms(3)] assms(3)
  by (simp add: detectMotion_mirrored_def Let_def avgX_def)

lemma detectMotion_vx:
  assumes "0 < width" "0 < height"
    and "\<not> real (changeCount (scanFrame 4 40 width height data pf)) < motionThreshold 4 0.005 width height"
  shows "\<exists>v. fst (detectMotion width height data pf) = Some v \<and>
             vx v = clamp1 ((avgX (scanFrame 4 40 width height data pf) - real width / 2) / (real width / 2 * 0.6))"
  using reached_threshold_pos[OF assms(1,2) _ _ assms(3)] assms(3)
  by (simp add: detectMotion_def Let_def avgX_def)

lemma clamp1_mono: "a \<le> b \<Longrightarrow> clamp1 a \<le> clamp1 b"
  by (simp add: clamp1_def max_def min_def)

lemma clamp1_pos: "0 < a \<Longrightarrow> 0 < clamp1 a \<and> clamp1 a \<le> 1"
  by (simp add: clamp1_def max_def min_def)

lemma clamp1_neg: "a < 0 \<Longrightarrow> clamp1 a < 0 \<and> -1 \<le> clamp1 a"
  by (simp add: clamp1_def max_def min_def)

lemma clamp1_sat: "1 \<le> a \<Longrightarrow> clamp1 a = 1"
  by (simp add: clamp1_def max_def min_def)

text \<open>mirror law for the corrected variant\<close>
lemma detectMotion_mirrored_left_block:
  assumes w: "0 < width" and h: "0 < height"
    and reach: "\<not> real (changeCount (scanFrame 8 25 width height data (Some prev))) < motionThreshold 8 0.001 width height"
    and left: "leftOnly 8 25 width height data prev"
  shows "\<exists>v. fst (detectMotion_mirrored width height data (Some prev)) = Some v \<and>
             0 < vx v \<and> vx v \<le> 1 \<and>
             vx v = clamp1 ((real width / 2 - avgX (scanFrame 8 25 width height data (Some prev))) / (real width / 4)) \<and>
             (real width / 4 \<le> real width / 2 - avgX (scanFrame 8 25 width height data (Some prev)) \<longrightarrow> vx v = 1)"
proof -
  let ?a = "scanFrame 8 25 width height data (Some prev)"
  from detectMotion_mirrored_vx[OF w h reach] obtain v where
    v: "fst (detectMotion_mirrored width height data (Some prev)) = Some v"
    and vx: "vx v = clamp1 ((real width / 2 - avgX ?a) / (real width / 2 * 0.5))" by blast
  have cc: "0 < changeCount ?a" using reached_threshold_pos[OF w h _ _ reach] by simp
  have lt: "avgX ?a < real width / 2" using avgX_left[OF scanFrame_left[OF left] cc] .
  have eq: "real width / 2 * 0.5 = real width / 4" by simp
  have pos: "0 < (real width / 2 - avgX ?a) / (real width / 4)" using lt w by simp
  have sat: "vx v = 1" if "real width / 4 \<le> real width / 2 - avgX ?a"
  proof -
    from that w have "1 \<le> (real width / 2 - avgX ?a) / (real width / 4)" by (simp add: field_simps)
    then have "clamp1 ((real width / 2 - avgX ?a) / (real width / 4)) = 1" by (rule clamp1_sat)
    then show ?thesis using vx by (simp only: eq)
  qed
  have vx': "vx v = clamp1 ((real width / 2 - avgX ?a) / (real width / 4))"
    using vx by (simp only: eq)
  have "0 < vx v" "vx v \<le> 1" using clamp1_pos[OF pos] by (simp_all only: vx')
  with v vx' sat show ?thesis by (intro exI[of _ v] conjI impI)
qed

lemma detectMotion_left_block:
  assumes w: "0 < width" and h: "0 < height"
    and reach: "\<not> real (changeCount (scanFrame 4 40 width height data (Some prev))) < motionThreshold 4 0.005 width height"
    and left: "leftOnly 4 40 width height data prev"
  shows "\<exists>v. fst (detectMotion width height data (Some prev)) = Some v \<and> vx v < 0"
proof -
  let ?a = "scanFrame 4 40 width height data (Some prev)"
  from detectMotion_vx[OF w h reach] obtain v where
    v: "fst (detectMotion width height data (Some prev)) = Some v"
    and vx: "vx v = clamp1 ((avgX ?a - real width / 2) / (real width / 2 * 0.6))" by blast
  have cc: "0 < changeCount ?a" using reached_threshold_pos[OF w h _ _ reach] by simp
  have lt: "avgX ?a < real width / 2" using avgX_left[OF scanFrame_left[OF left] cc] .
  have "(avgX ?a - real width / 2) / (real width / 2 * 0.6) < 0" using lt w by (simp add: field_simps)
  from clamp1_neg[OF this] have "vx v < 0" by (simp only: vx)
  with v show ?thesis by (intro exI[of _ v] conjI)
qed

lemma detectMotion_mirrored_monotone:
  assumes w: "0 < width" and h: "0 < height"
    and r1: "\<not> real (changeCount (scanFrame 8 25 width height data1 pf1)) < motionThreshold 8 0.001 width height"
    and r2: "\<not> real (changeCount (scanFrame 8 25 width height data2 pf2)) < motionThreshold 8 0.001 width height"
    and le: "real width / 2 - avgX (scanFrame 8 25 width height data1 pf1) \<le> real width / 2 - avgX (scanFrame 8 25 width height data2 pf2)"
  shows "\<exists>v1 v2. fst (detectMotion_mirrored width height data1 pf1) = Some v1 \<and>
                 fst (detectMotion_mirrored width height data2 pf2) = Some v2 \<and> vx v1 \<le> vx v2"
proof -
  from detectMotion_mirrored_vx[OF w h r1] obtain v1 where
    v1: "fst (detectMotion_mirrored width height data1 pf1) = Some v1"
      "vx v1 = clamp1 ((real width / 2 - avgX (scanFrame 8 25 width height data1 pf1)) / (real width / 2 * 0.5))" by blast
  from detectMotion_mirrored_vx[OF w h r2] obtain v2 where
    v2: "fst (detectMotion_mirrored width height data2 pf2) = Some v2"
      "vx v2 = clamp1 ((real width / 2 - avgX (scanFrame 8 25 width height data2 pf2)) / (real width / 2 * 0.5))" by blast
  from le w have "(real width / 2 - avgX (scanFrame 8 25 width height data1 pf1)) / (real width / 2 * 0.5)
      \<le> (real width / 2 - avgX (scanFrame 8 25 width height data2 pf2)) / (real width / 2 * 0.5)"
    by (simp add: divide_right_mono)
  from clamp1_mono[OF this] have "vx v1 \<le> vx v2" by (simp only: v1(2) v2(2))
  with v1(1) v2(1) show ?thesis by (intro exI[of _ v1] exI[of _ v2] conjI)
qed

lemma strided_values:
  "strided 4 32 = [0, 4, 8, 12, 16, 20, 24, 28]" "strided 4 8 = [0, 4]"
  "strided 8 32 = [0, 8, 16, 24]" "strided 8 8 = [0]"
  by code_simp+

lemma scanFrame_stripe:
  "scanFrame 4 40 32 8 stripeFrame (Some blackFrame) = \<lparr>totalX = 20, totalY = 0, changeCount = 2\<rparr>"
  "scanFrame 8 25 32 8 stripeFrame (Some blackFrame) = \<lparr>totalX = 8, totalY = 0, changeCount = 1\<rparr>"
  by (simp_all add: scanFrame_def scanRow_def samplePixel_def pixelChanged_def channelDiff_def
      strided_values stripeFrame_def blackFrame_def nth_append)

lemma stripe_is_left_block:
  "leftOnly 4 40 32 8 stripeFrame blackFrame \<and> leftOnly 8 25 32 8 stripeFrame blackFrame \<and>
   \<not> real (changeCount (scanFrame 4 40 32 8 stripeFrame (Some blackFrame))) < motionThreshold 4 0.005 32 8 \<and>
   \<not> real (changeCount (scanFrame 8 25 32 8 stripeFrame (Some blackFrame))) < motionThreshold 8 0.001 32 8"
proof -
  have "leftOnly 4 40 32 8 stripeFrame blackFrame" "leftOnly 8 25 32 8 stripeFrame blackFrame"
    by (simp_all add: leftOnly_def pixelChanged_def channelDiff_def strided_values
        stripeFrame_def blackFrame_def nth_append)
  moreover have
    "\<not> real (changeCount (scanFrame 4 40 32 8 stripeFrame (Some blackFrame))) < motionThreshold 4 0.005 32 8"
    "\<not> real (changeCount (scanFrame 8 25 32 8 stripeFrame (Some blackFrame))) < motionThreshold 8 0.001 32 8"
    by (simp_all add: scanFrame_stripe motionThreshold_def)
  ultimately show ?thesis by (intro conjI)
qed

text \<open>
  Claim C2.  The claim asks for a positive x, growing with the displacement of the block
  from the centre and saturating at +1, whenever the changed pixels lie left of the centre.
  The variant of lines 84-157 does that (\<open>detectMotion_mirrored_left_block\<close>,
  \<open>detectMotion_mirrored_monotone\<close>).  The variant of lines 6-78, whose comment says
  "X is inverted because webcam is usually mirrored", computes \<^verbatim>\<open>(avgX - centerX)\<close> and so
  returns a negative x (\<open>detectMotion_left_block\<close>): on the stripe left of the centre it
  answers -5/8 where the other variant answers +1.
\<close>

theorem C2_unmirrored_variant:
  "fst (detectMotion 32 8 stripeFrame (Some blackFrame)) = Some \<lparr>vx = - (5/8), vy = - 1, intensity = 2\<rparr> \<and>
   fst (detectMotion_mirrored 32 8 stripeFrame (Some blackFrame)) = Some \<lparr>vx = 1, vy = - 1, intensity = 1\<rparr>"
  by (simp add: detectMotion_def detectMotion_mirrored_def scanFrame_stripe motionThreshold_def
      clamp1_def Let_def)

theorem C2_unmirrored_variant_witness:
  "map_option vx (fst (detectMotion 32 8 stripeFrame (Some blackFrame))) = Some (- (5/8)) \<and>
   map_option vx (fst (detectMotion_mirrored 32 8 stripeFrame (Some blackFrame))) = Some 1"
  using C2_unmirrored_variant by simp

section \<open>Food placement\<close>

lemma floor_draw:
  fixes r :: real
  assumes "0 \<le> r" "r < 1" "0 < n"
  shows "0 \<le> \<lfloor>r * real_of_int n\<rfloor> \<and> \<lfloor>r * real_of_int n\<rfloor> < n"
proof -
  have "0 \<le> r * real_of_int n" using assms by simp
  moreover have "r * real_of_int n < real_of_int n" using assms by simp
  ultimately show ?thesis by (simp add: floor_less_iff)
qed

text \<open>
  Claim C4, as the code has it.  Neither variant of \<^verbatim>\<open>spawnFood\<close> reads the snake: for
  every pair of random draws in [0,1) the food lands on the inner ring of the grid,
  \<open>1 \<le> x \<le> COLS - 2\<close> and \<open>1 \<le> y \<le> ROWS - 2\<close> (in the variant of SnakeGame.tsx:
  \<open>0 \<le> x < 15\<close> or \<open>30\<close> and \<open>0 \<le> y < 15\<close> or \<open>20\<close>, by the 600-pixel breakpoint), the
  position depends on the draws and the viewport only, and the snake is left as it is.
\<close>

theorem C4_spawn_range:
  assumes "0 \<le> rx" "rx < 1" "0 \<le> ry" "ry < 1"
  shows "1 \<le> px (foodRef (spawnFood_ref w rx ry g)) \<and> px (foodRef (spawnFood_ref w rx ry g)) \<le> COLS w - 2 \<and>
         1 \<le> py (foodRef (spawnFood_ref w rx ry g)) \<and> py (foodRef (spawnFood_ref w rx ry g)) \<le> ROWS w - 2 \<and>
         0 \<le> px (foodRef (spawnFood w rx ry g)) \<and> px (foodRef (spawnFood w rx ry g)) < (if w < 600 then 15 else 30) \<and>
         0 \<le> py (foodRef (spawnFood w rx ry g)) \<and> py (foodRef (spawnFood w rx ry g)) < (if w < 600 then 15 else 20) \<and>
         foodRef (spawnFood_ref w rx ry g) = foodRef (spawnFood_ref w rx ry g') \<and>
         foodRef (spawnFood w rx ry g) = foodRef (spawnFood w rx ry g') \<and>
         snakeRef (spawnFood_ref w rx ry g) = snakeRef g \<and> snakeRef (spawnFood w rx ry g) = snakeRef g"
  using floor_draw[OF assms(1,2), of 13] floor_draw[OF assms(1,2), of 28]
        floor_draw[OF assms(3,4), of 13] floor_draw[OF assms(3,4), of 18]
        floor_draw[OF assms(1,2), of 15] floor_draw[OF assms(1,2), of 30]
        floor_draw[OF assms(3,4), of 15] floor_draw[OF assms(3,4), of 20]
  by (simp add: spawnFood_ref_def spawnFood_def COLS_def ROWS_def Let_def)

theorem C4_spawn_range_witness:
  "foodRef (spawnFood_ref 1024 (11/32) (1/2) freshRun_ref) = \<lparr>px = 10, py = 10\<rparr> \<and>
   foodRef (spawnFood 1024 (11/32) (1/2) freshRun) = \<lparr>px = 10, py = 10\<rparr> \<and>
   COLS 1024 - 2 = 28 \<and> ROWS 1024 - 2 = 18"
  using C4_spawn_range[of "11/32" "1/2" 1024 freshRun_ref freshRun_ref]
  by (simp add: spawnFood_ref_def spawnFood_def COLS_def ROWS_def)

text \<open>
  Claim C4, as stated, fails: at the start of a run the draws 11/32 and 1/2 put the food on
  the cell (10, 10), which is the snake's only segment, in both variants.
\<close>

theorem C4_food_on_snake:
  "foodRef (startGame_ref 1024 (11/32) (1/2) (setPlayerName ''Ann'' (mount None 1024)))
     \<in> set (snakeRef (startGame_ref 1024 (11/32) (1/2) (setPlayerName ''Ann'' (mount None 1024)))) \<and>
   foodRef (startGame (Some ''key'') 1024 (11/32) (1/2) (setPlayerName ''Ann'' (mount None 1024)))
     \<in> set (snakeRef (startGame (Some ''key'') 1024 (11/32) (1/2) (setPlayerName ''Ann'' (mount None 1024))))"
  by (simp add: startGame_ref_def startGame_def isBlank_def rerender_def spawnFood_ref_def spawnFood_def
        mount_def setPlayerName_def INITIAL_SNAKE_def Let_def)


section \<open>Game over and the persisted score\<close>

lemmas run_defs = narrowRun_def narrowRun_ref_def frameAt_def fiveFrames_def startGame_def startGame_ref_def
  isBlank_def rerender_def renderOf_def spawnFood_def spawnFood_ref_def mount_def setPlayerName_def
  animationFrame_def animationFrame_ref_def loop_def loop_ref_def updateSnake_def updateSnake_ref_def
  gameOver_def gameOver_ref_def saveScore_def newLeaderboard_def makeEntry_def wallCollision_def
  selfCollision_def onFood_def INITIAL_SNAKE_def COLS_def ROWS_def INITIAL_SNAKE_SPEED_def
  currentSpeed_def MIN_SPEED_def BASE_SPEED_def SPEED_DECREMENT_def Let_def

lemma updateSnake_ref_collision:
  assumes "snakeRef g = h # rest"
    and "wallCollision r (move (directionRef g) h) \<or> selfCollision (snakeRef g) (move (directionRef g) h)"
  shows "gameState (updateSnake_ref r w rx ry now g) = GAME_OVER \<and>
         leaderboard (updateSnake_ref r w rx ry now g) =
           newLeaderboard (r_leaderboard r) (makeEntry ''Unknown Pilot'' (r_playerName r) (scoreRef g) now) \<and>
         storage (updateSnake_ref r w rx ry now g) = Some (leaderboard (updateSnake_ref r w rx ry now g))"
  using assms by (auto simp: updateSnake_ref_def gameOver_ref_def saveScore_def Let_def)

lemma updateSnake_collision:
  assumes "snakeRef g = h # rest"
    and "wallCollision r (move (directionRef g) h) \<or> selfCollision (snakeRef g) (move (directionRef g) h)"
  shows "gameState (updateSnake r w rx ry now g) = GAME_OVER \<and>
         leaderboard (updateSnake r w rx ry now g) =
           newLeaderboard (r_leaderboard r) (makeEntry ''Unknown Pilot'' (r_playerName r) (r_score r) now) \<and>
         storage (updateSnake r w rx ry now g) = Some (leaderboard (updateSnake r w rx ry now g))"
  using assms by (auto simp: updateSnake_def gameOver_def saveScore_def Let_def)

lemma motionStep_frame:
  "gameState (motionStep detect arb data g) = gameState g \<and>
   leaderboard (motionStep detect arb data g) = leaderboard g \<and>
   loopRender (motionStep detect arb data g) = loopRender g \<and>
   playerName (motionStep detect arb data g) = playerName g"
  by (simp add: motionStep_def Let_def split: prod.splits option.splits)

lemma updateSnake_outcome:
  "(gameState (updateSnake r w rx ry now g) = gameState g \<and>
    leaderboard (updateSnake r w rx ry now g) = leaderboard g \<and>
    loopRender (updateSnake r w rx ry now g) = loopRender g) \<or>
   (gameState (updateSnake r w rx ry now g) = GAME_OVER \<and>
    leaderboard (updateSnake r w rx ry now g) =
      newLeaderboard (r_leaderboard r) (makeEntry ''Unknown Pilot'' (r_playerName r) (r_score r) now) \<and>
    loopRender (updateSnake r w rx ry now g) = loopRender g)"
  by (simp add: updateSnake_def gameOver_def saveScore_def spawnFood_def Let_def split: list.splits)

lemma loop_outcome:
  "(gameState (loop detect r ti g) = gameState g \<and>
    leaderboard (loop detect r ti g) = leaderboard g \<and>
    loopRender (loop detect r ti g) = loopRender g) \<or>
   (gameState (loop detect r ti g) = GAME_OVER \<and>
    leaderboard (loop detect r ti g) =
      newLeaderboard (r_leaderboard r) (makeEntry ''Unknown Pilot'' (r_playerName r) (r_score r) (tick_now ti)) \<and>
    loopRender (loop detect r ti g) = loopRender g)"
proof -
  let ?g1 = "case tick_frame ti of None \<Rightarrow> g | Some data \<Rightarrow> motionStep detect (determineDirection 0.3) data g"
  have g1: "gameState ?g1 = gameState g \<and> leaderboard ?g1 = leaderboard g \<and> loopRender ?g1 = loopRender g"
    by (simp add: motionStep_frame split: option.splits)
  show ?thesis
    using updateSnake_outcome[of r "tick_innerWidth ti" "tick_randX ti" "tick_randY ti" "tick_now ti" ?g1] g1
    by (simp add: loop_def Let_def)
qed

lemma frames_stopped:
  "gameState g \<noteq> PLAYING \<Longrightarrow> r_gameState (loopRender g) = gameState g \<Longrightarrow> frames detect tis g = g"
  by (induction tis) (simp_all add: animationFrame_def loop_def rerender_def)

lemma frames_stale_score:
  assumes "gameState g = PLAYING" and "r_gameState (loopRender g) = PLAYING"
    and "gameState (frames detect tis g) = GAME_OVER"
  shows "\<exists>now. leaderboard (frames detect tis g) =
           newLeaderboard (r_leaderboard (loopRender g))
             (makeEntry ''Unknown Pilot'' (r_playerName (loopRender g)) (r_score (loopRender g)) now)"
  using assms
proof (induction tis arbitrary: g)
  case Nil
  then show ?case by simp
next
  case (Cons ti tis)
  let ?l = "loop detect (loopRender g) ti g"
  let ?g' = "animationFrame detect ti g"
  from loop_outcome[of detect "loopRender g" ti g]
  consider (same) "gameState ?l = gameState g" "loopRender ?l = loopRender g"
    | (over) "gameState ?l = GAME_OVER"
        "leaderboard ?l = newLeaderboard (r_leaderboard (loopRender g))
           (makeEntry ''Unknown Pilot'' (r_playerName (loopRender g)) (r_score (loopRender g)) (tick_now ti))"
    by blast
  then show ?case
  proof cases
    case same
    then have g': "?g' = ?l" by (simp add: animationFrame_def rerender_def)
    have "gameState ?g' = PLAYING" "r_gameState (loopRender ?g') = PLAYING" "loopRender ?g' = loopRender g"
      using same Cons.prems(1,2) by (simp_all add: g')
    moreover have "gameState (frames detect tis ?g') = GAME_OVER" using Cons.prems(3) by simp
    ultimately show ?thesis using Cons.IH[of ?g'] by simp
  next
    case over
    have gs: "gameState ?g' = GAME_OVER" "leaderboard ?g' = leaderboard ?l"
      "r_gameState (loopRender ?g') = GAME_OVER"
      using over(1) Cons.prems(1) by (simp_all add: animationFrame_def rerender_def renderOf_def)
    then have "frames detect tis ?g' = ?g'" by (intro frames_stopped) simp_all
    then have "leaderboard (frames detect (ti # tis) g) = leaderboard ?l" using gs(2) by simp
    from this over(2) have "leaderboard (frames detect (ti # tis) g) =
        newLeaderboard (r_leaderboard (loopRender g))
          (makeEntry ''Unknown Pilot'' (r_playerName (loopRender g)) (r_score (loopRender g)) (tick_now ti))"
      by (rule trans)
    then show ?thesis by (rule exI)
  qed
qed

lemma startGame_render:
  assumes "k \<noteq> []" "\<not> isBlank (playerName g)" "gameState g \<noteq> PLAYING"
  shows "gameState (startGame (Some k) w rx ry g) = PLAYING \<and>
         r_gameState (loopRender (startGame (Some k) w rx ry g)) = PLAYING \<and>
         r_score (loopRender (startGame (Some k) w rx ry g)) = 0 \<and>
         r_playerName (loopRender (startGame (Some k) w rx ry g)) = playerName g \<and>
         r_leaderboard (loopRender (startGame (Some k) w rx ry g)) = leaderboard g"
  using assms by (simp add: startGame_def rerender_def renderOf_def spawnFood_def)

lemma run_always_saves_zero:
  assumes "k \<noteq> []" "\<not> isBlank (playerName g)" "gameState g \<noteq> PLAYING"
    and "gameState (frames detect tis (startGame (Some k) w rx ry g)) = GAME_OVER"
  shows "\<exists>now. leaderboard (frames detect tis (startGame (Some k) w rx ry g)) =
           newLeaderboard (leaderboard g) (makeEntry ''Unknown Pilot'' (playerName g) 0 now)"
  using frames_stale_score[of "startGame (Some k) w rx ry g" detect tis] startGame_render[OF assms(1-3), of w rx ry] assms(4)
  by simp

lemma ref_run_saves_score:
  "gameState (frames_ref detectMotion_mirrored fiveFrames narrowRun_ref) = GAME_OVER \<and>
   scoreRef (frames_ref detectMotion_mirrored fiveFrames narrowRun_ref) = 1 \<and>
   leaderboard (frames_ref detectMotion_mirrored fiveFrames narrowRun_ref) =
     [\<lparr>name = ''Ann'', score = 1, timestamp = 1005\<rparr>]"
  by (simp add: run_defs)

text \<open>
  Claim C3.  A wall or self collision sets the state to GAME_OVER and hands a score to the
  leaderboard store under the player's name and the clock, in both variants
  (\<open>updateSnake_collision\<close>, \<open>updateSnake_ref_collision\<close>).  The variant of
  visionUtils.ts saves \<^verbatim>\<open>scoreRef.current\<close>, the score of the run.  The variant of
  SnakeGame.tsx saves the \<^verbatim>\<open>score\<close> its \<^verbatim>\<open>loop\<close> callback closed over when the run
  started, which is 0 (\<open>run_always_saves_zero\<close>): in the run below the snake eats once,
  the score shown is 1, and the entry stored at the wall has score 0.
\<close>

theorem C3_stale_score:
  "gameState (frames detectMotion_mirrored [frameAt 300 1001] narrowRun) = PLAYING \<and>
   scoreState (frames detectMotion_mirrored [frameAt 300 1001] narrowRun) = 1 \<and>
   gameState (frames detectMotion_mirrored fiveFrames narrowRun) = GAME_OVER \<and>
   scoreState (frames detectMotion_mirrored fiveFrames narrowRun) = 1 \<and>
   leaderboard (frames detectMotion_mirrored fiveFrames narrowRun) =
     [\<lparr>name = ''Ann'', score = 0, timestamp = 1005\<rparr>] \<and>
   storage (frames detectMotion_mirrored fiveFrames narrowRun) =
     Some [\<lparr>name = ''Ann'', score = 0, timestamp = 1005\<rparr>]"
  by (simp add: run_defs)

theorem C3_stale_score_witness:
  "map score (leaderboard (frames detectMotion_mirrored fiveFrames narrowRun)) = [0] \<and>
   scoreState (frames detectMotion_mirrored fiveFrames narrowRun) = 1"
  using C3_stale_score by simp

end
